theory Spec2Isabelle
  imports Complex_Main "HOL-Library.AList" "HOL-Library.Word"
begin

section \<open>The vendored GraphQL client (go-graphql-client), as used by the action\<close>

text \<open>
  The development embeds the request pipeline of
  \<^verbatim>\<open>src/vendor/github.com/hasura/go-graphql-client/option.go\<close>:
  \<^verbatim>\<open>Client.request\<close>, \<^verbatim>\<open>Client.processResponse\<close>, \<^verbatim>\<open>Client.do\<close>, the two client
  derivations and the error constructors. Everything the pipeline calls outside that
  file (the Go standard library and the vendored packages whose sources are not part of
  the tree) is a field of the record \<open>lib\<close>. The theorems hold for all values of these
  fields; the examples are evaluated with the stand-ins of \<open>example_lib\<close>.
\<close>

subsection \<open>Bytes, readers and outcomes\<close>

text \<open>Go's \<^verbatim>\<open>[]byte\<close> and \<^verbatim>\<open>string\<close>; a nil slice is the empty list (the code only
  ever takes \<^verbatim>\<open>len\<close> of one).\<close>

type_synonym bytes = string

text \<open>A Go function either returns or panics.\<close>

datatype 'a outcome = Panic | Return 'a

text \<open>Go error values: an error of a library, known by its message; an error wrapped
  by \<^verbatim>\<open>fmt.Errorf(prefix + "%w", err)\<close>; a \<^verbatim>\<open>NetworkError\<close>.\<close>

record NetworkError =
  body :: string
  statusCode :: int

datatype go_error =
    errorString string
  | wrapError string go_error
  | networkError NetworkError

text \<open>An \<^verbatim>\<open>io.Reader\<close> over a source that is read once (a response body, a gzip
  reader): the bytes it yields and, if reading ends in an error instead of EOF, that
  error.\<close>

record stream =
  content :: bytes
  read_err :: "go_error option"

text \<open>A \<^verbatim>\<open>*bytes.Reader\<close>: a buffer and the read offset. Reading one never fails.\<close>

record bytes_Reader =
  buf :: bytes
  off :: nat

definition NewReader :: "bytes \<Rightarrow> bytes_Reader" where
  "NewReader b = \<lparr>buf = b, off = 0\<rparr>"

definition Seek0 :: "bytes_Reader \<Rightarrow> bytes_Reader" where
  "Seek0 r = r\<lparr>off := 0\<rparr>"

definition ReadAll_bytes :: "bytes_Reader \<Rightarrow> bytes \<times> bytes_Reader" where
  "ReadAll_bytes r = (drop (off r) (buf r), r\<lparr>off := length (buf r)\<rparr>)"

text \<open>What a decoder sees when it reads from a \<^verbatim>\<open>*bytes.Reader\<close>.\<close>

definition reader_stream :: "bytes_Reader \<Rightarrow> stream" where
  "reader_stream r = \<lparr>content = drop (off r) (buf r), read_err = None\<rparr>"

text \<open>An \<^verbatim>\<open>io.Reader\<close> interface value as \<^verbatim>\<open>request\<close> hands it to
  \<^verbatim>\<open>processResponse\<close>: the nil interface, or a \<^verbatim>\<open>*bytes.Reader\<close> (itself possibly a nil
  pointer, which is a non-nil interface value in Go).\<close>

datatype io_Reader = nil_Reader | bytes_Reader_ptr "bytes_Reader option"

subsection \<open>HTTP messages\<close>

text \<open>\<^verbatim>\<open>http.Header\<close> is a map from (canonical) names to value lists.\<close>

type_synonym Header = "(string \<times> string list) list"

definition Header_Get :: "Header \<Rightarrow> string \<Rightarrow> string" where
  "Header_Get h k = (case map_of h k of Some (v # _) \<Rightarrow> v | _ \<Rightarrow> [])"

definition Header_Add :: "Header \<Rightarrow> string \<Rightarrow> string \<Rightarrow> Header" where
  "Header_Add h k v =
     AList.update k ((case map_of h k of Some vs \<Rightarrow> vs | None \<Rightarrow> []) @ [v]) h"

record http_Request =
  req_Method :: string
  req_URL :: string
  req_Header :: Header
  req_Body :: bytes

record http_Response =
  StatusCode :: int
  resp_Header :: Header
  Body :: stream

text \<open>What \<^verbatim>\<open>Doer.Do\<close> leaves behind: the request as the transport left it (a transport
  may set headers, as \<^verbatim>\<open>customTransport.RoundTrip\<close> of \<^verbatim>\<open>main.go\<close> does), how far it
  advanced the reader of the request body, and the response or the error. As for
  \<^verbatim>\<open>http.Client\<close>, a nil error comes with a non-nil response.\<close>

record do_outcome =
  Sent :: http_Request
  ReqOff :: nat
  Result :: "go_error + http_Response"

type_synonym Doer = "http_Request \<Rightarrow> do_outcome"

type_synonym RequestModifier = "http_Request \<Rightarrow> http_Request"

subsection \<open>Dynamic values and structured errors\<close>

text \<open>Go's \<^verbatim>\<open>any\<close>, for the values that occur in \<^verbatim>\<open>Extensions\<close> and \<^verbatim>\<open>Path\<close>: what
  \<^verbatim>\<open>encoding/json\<close> decodes into an interface (nil, bool, float64, string, slice,
  \<^verbatim>\<open>map[string]any\<close>), and what the debug capture stores (\<^verbatim>\<open>http.Header\<close>, an error).\<close>

datatype any =
    ANil
  | ABool bool
  | ANumber real
  | AString string
  | AArray "any list"
  | AMap "(string \<times> any) list"
  | AHeader Header
  | AError go_error

record Error =
  Message :: string
  Extensions :: "(string \<times> any) list option"
  Locations :: "(int \<times> int) list"
  Path :: "any list"
  err :: "go_error option"

type_synonym Errors = "Error list"

text \<open>\<^verbatim>\<open>fmt\<close>'s \<^verbatim>\<open>%d\<close>.\<close>

fun digits :: "nat \<Rightarrow> string" where
  "digits n =
     (if n < 10 then [''0123456789'' ! n]
      else digits (n div 10) @ [''0123456789'' ! (n mod 10)])"

declare digits.simps [simp del]

definition itoa :: "int \<Rightarrow> string" where
  "itoa i = (if i < 0 then CHR ''-'' # digits (nat (- i)) else digits (nat i))"

text \<open>The \<^verbatim>\<open>Error()\<close> methods. \<^verbatim>\<open>http.StatusText\<close> is the standard library's table.\<close>

definition NetworkError_Error :: "(int \<Rightarrow> string) \<Rightarrow> NetworkError \<Rightarrow> string" where
  "NetworkError_Error StatusText e =
     itoa (statusCode e) @ '' '' @ StatusText (statusCode e)"

definition NetworkError_Body :: "NetworkError \<Rightarrow> string" where
  "NetworkError_Body e = body e"

definition NetworkError_StatusCode :: "NetworkError \<Rightarrow> int" where
  "NetworkError_StatusCode e = statusCode e"

fun error_Error :: "(int \<Rightarrow> string) \<Rightarrow> go_error \<Rightarrow> string" where
  "error_Error st (errorString s) = s"
| "error_Error st (wrapError p e) = p @ error_Error st e"
| "error_Error st (networkError ne) = NetworkError_Error st ne"

definition ErrRequestError :: string where
  "ErrRequestError = ''request_error''"

definition ErrJsonEncode :: string where
  "ErrJsonEncode = ''json_encode_error''"

definition ErrJsonDecode :: string where
  "ErrJsonDecode = ''json_decode_error''"

definition ErrGraphQLEncode :: string where
  "ErrGraphQLEncode = ''graphql_encode_error''"

definition ErrGraphQLDecode :: string where
  "ErrGraphQLDecode = ''graphql_decode_error''"

definition ErrGraphQLExtensionsDecode :: string where
  "ErrGraphQLExtensionsDecode = ''graphql_extensions_decode_error''"

definition newError :: "(int \<Rightarrow> string) \<Rightarrow> string \<Rightarrow> go_error \<Rightarrow> Error" where
  "newError st code e =
     \<lparr>Message = error_Error st e,
      Extensions = Some [(''code'', AString code)],
      Locations = [],
      Path = [],
      err = Some e\<rparr>"

text \<open>\<^verbatim>\<open>getInternalExtension\<close>: the type assertion \<^verbatim>\<open>ex.(map[string]any)\<close> panics on a
  value that is not a map (nil included).\<close>

definition getInternalExtension :: "Error \<Rightarrow> (string \<times> any) list outcome" where
  "getInternalExtension e =
     (case Extensions e of
        None \<Rightarrow> Return []
      | Some m \<Rightarrow>
          (case map_of m ''internal'' of
             Some (AMap ex) \<Rightarrow> Return ex
           | Some _ \<Rightarrow> Panic
           | None \<Rightarrow> Return []))"

text \<open>\<^verbatim>\<open>withRequest\<close>. Every call passes a \<^verbatim>\<open>*bytes.Reader\<close>, whose \<^verbatim>\<open>ReadAll\<close> never
  fails, so the branch storing \<^verbatim>\<open>internal["error"]\<close> is not taken. Reading
  \<^verbatim>\<open>req.Header\<close> of a nil request panics.\<close>

definition withRequest ::
  "Error \<Rightarrow> http_Request option \<Rightarrow> bytes_Reader \<Rightarrow> (Error \<times> bytes_Reader) outcome" where
  "withRequest e req bodyReader =
     (case getInternalExtension e of
        Panic \<Rightarrow> Panic
      | Return internal \<Rightarrow>
          (case ReadAll_bytes bodyReader of
             (bodyBytes, bodyReader') \<Rightarrow>
               (case req of
                  None \<Rightarrow> Panic
                | Some rq \<Rightarrow>
                    Return
                      (e\<lparr>Extensions :=
                           Some (AList.update ''internal''
                             (AMap (AList.update ''request''
                                (AMap [(''headers'', AHeader (req_Header rq)),
                                       (''body'', AString bodyBytes)])
                                internal))
                             (case Extensions e of None \<Rightarrow> [] | Some m \<Rightarrow> m))\<rparr>,
                       bodyReader'))))"

text \<open>\<^verbatim>\<open>withResponse\<close>: \<^verbatim>\<open>res.Header\<close> of a nil response panics, reading a nil
  \<^verbatim>\<open>*bytes.Reader\<close> panics, and so does the assignment into a nil \<^verbatim>\<open>Extensions\<close> map.\<close>

definition withResponse ::
  "Error \<Rightarrow> http_Response option \<Rightarrow> io_Reader \<Rightarrow> (Error \<times> io_Reader) outcome" where
  "withResponse e res bodyReader =
     (case getInternalExtension e of
        Panic \<Rightarrow> Panic
      | Return internal \<Rightarrow>
          (case res of
             None \<Rightarrow> Panic
           | Some rs \<Rightarrow>
               (case (case bodyReader of
                        nil_Reader \<Rightarrow>
                          Return ([(''headers'', AHeader (resp_Header rs))], nil_Reader)
                      | bytes_Reader_ptr None \<Rightarrow> Panic
                      | bytes_Reader_ptr (Some rd) \<Rightarrow>
                          (case ReadAll_bytes rd of
                             (bodyBytes, rd') \<Rightarrow>
                               Return ([(''headers'', AHeader (resp_Header rs)),
                                        (''body'', AString bodyBytes)],
                                       bytes_Reader_ptr (Some rd')))) of
                  Panic \<Rightarrow> Panic
                | Return (response, bodyReader') \<Rightarrow>
                    (case Extensions e of
                       None \<Rightarrow> Panic
                     | Some m \<Rightarrow>
                         Return
                           (e\<lparr>Extensions :=
                                Some (AList.update ''internal''
                                  (AMap (AList.update ''response'' (AMap response) internal))
                                  m)\<rparr>,
                            bodyReader')))))"

text \<open>The chained call \<^verbatim>\<open>e.withRequest(request, reqReader).withResponse(resp, respReader)\<close>
  of \<^verbatim>\<open>request\<close>; \<^verbatim>\<open>respReader\<close> is a \<^verbatim>\<open>*bytes.Reader\<close>.\<close>

definition withRequest_withResponse ::
  "Error \<Rightarrow> http_Request \<Rightarrow> bytes_Reader \<Rightarrow> http_Response \<Rightarrow> bytes_Reader option
     \<Rightarrow> (Error \<times> io_Reader) outcome" where
  "withRequest_withResponse e request reqReader resp respReader =
     (case withRequest e (Some request) reqReader of
        Panic \<Rightarrow> Panic
      | Return (e1, _) \<Rightarrow> withResponse e1 (Some resp) (bytes_Reader_ptr respReader))"

subsection \<open>The client and what it calls\<close>

record Client =
  url :: string
  httpClient :: Doer
  requestModifier :: "RequestModifier option"
  debug :: bool

text \<open>\<^verbatim>\<open>operationType\<close> is a \<^verbatim>\<open>uint8\<close>.\<close>

type_synonym operationType = "8 word"

definition queryOperation :: operationType where
  "queryOperation = 0"

definition mutationOperation :: operationType where
  "mutationOperation = 1"

text \<open>The fields of \<^verbatim>\<open>constructOptionsOutput\<close> the pipeline reads: the operation name
  and the pointer bound by \<^verbatim>\<open>BindExtensions\<close> (\<open>None\<close> when no target is bound; \<open>Some x\<close>
  holds what the target contains before the call).\<close>

record 'x constructOptionsOutput =
  operationName :: string
  extensions :: "'x option"

record 'q GraphQLRequestPayload =
  Query :: string
  Variables :: 'q
  OperationName :: string

text \<open>The anonymous struct \<^verbatim>\<open>out\<close> of \<^verbatim>\<open>request\<close>, as \<^verbatim>\<open>encoding/json\<close> fills it:
  \<^verbatim>\<open>Data\<close> and \<^verbatim>\<open>Extensions\<close> are \<^verbatim>\<open>*json.RawMessage\<close>.\<close>

record out_struct =
  out_Data :: "bytes option"
  out_Extensions :: "bytes option"
  out_Errors :: Errors

text \<open>
  The functions the pipeline calls that are not defined in \<^verbatim>\<open>option.go\<close>. The type
  variables are the caller's types: \<open>'v\<close> the typed output (the struct \<^verbatim>\<open>v\<close> points to),
  \<open>'x\<close> the bound extensions target, \<open>'q\<close> the variables map, \<open>'o\<close> the options.
  \<^item> \<open>constructQuery\<close>, \<open>constructMutation\<close>: the query text and the options output,
    or an error.
  \<^item> \<open>json_Encode\<close>: \<^verbatim>\<open>json.NewEncoder(&buf).Encode(in)\<close>, the bytes written or an error.
  \<^item> \<open>NewRequestWithContext\<close>: \<^verbatim>\<open>http.NewRequestWithContext(ctx, method, url, body)\<close>.
  \<^item> \<open>gzip_NewReader\<close>: \<^verbatim>\<open>gzip.NewReader(r)\<close> reads the gzip header from \<open>r\<close>. It
    fails, or gives what is left unread in \<open>r\<close> and the stream of decompressed bytes.
  \<^item> \<open>json_Decode\<close>: \<^verbatim>\<open>json.NewDecoder(r).Decode(&out)\<close>.
  \<^item> \<open>UnmarshalGraphQL\<close>, \<open>json_Unmarshal\<close>: what the target holds afterwards, and the
    error if any.
\<close>

record ('v, 'x, 'q, 'o) lib =
  StatusText :: "int \<Rightarrow> string"
  DefaultClient :: Doer
  constructQuery :: "'v \<Rightarrow> 'q \<Rightarrow> 'o list \<Rightarrow> go_error + string \<times> 'x constructOptionsOutput"
  constructMutation :: "'v \<Rightarrow> 'q \<Rightarrow> 'o list \<Rightarrow> go_error + string \<times> 'x constructOptionsOutput"
  json_Encode :: "'q GraphQLRequestPayload \<Rightarrow> go_error + bytes"
  NewRequestWithContext :: "string \<Rightarrow> string \<Rightarrow> bytes \<Rightarrow> go_error + http_Request"
  gzip_NewReader :: "stream \<Rightarrow> go_error + stream \<times> stream"
  json_Decode :: "stream \<Rightarrow> go_error + out_struct"
  UnmarshalGraphQL :: "bytes \<Rightarrow> 'v \<Rightarrow> 'v \<times> go_error option"
  json_Unmarshal :: "bytes \<Rightarrow> 'x \<Rightarrow> 'x \<times> go_error option"


subsection \<open>buildQueryAndOptions\<close>

definition buildQueryAndOptions ::
  "('v, 'x, 'q, 'o) lib \<Rightarrow> Client \<Rightarrow> operationType \<Rightarrow> 'v \<Rightarrow> 'q \<Rightarrow> 'o list
     \<Rightarrow> Errors + string \<times> 'x constructOptionsOutput" where
  "buildQueryAndOptions lib c op v variables options =
     (case (if op = queryOperation then constructQuery lib v variables options
            else if op = mutationOperation then constructMutation lib v variables options
            else Inl (errorString (''invalid operation type: '' @ itoa (uint op)))) of
        Inl e \<Rightarrow> Inl [newError (StatusText lib) ErrGraphQLEncode e]
      | Inr qo \<Rightarrow> Inr qo)"

subsection \<open>request\<close>

text \<open>What \<^verbatim>\<open>request\<close> returns: the raw data, the raw extensions, the response, the
  copy of the response body kept for debugging, the errors.\<close>

type_synonym request_result =
  "bytes \<times> bytes \<times> http_Response option \<times> io_Reader \<times> Errors"

text \<open>\<^verbatim>\<open>return nil, nil, nil, nil, Errors{e}\<close>.\<close>

definition request_fail :: "Error \<Rightarrow> request_result outcome" where
  "request_fail e = Return ([], [], None, nil_Reader, [e])"

text \<open>\<^verbatim>\<open>if c.debug { e = e.withRequest(request, reqReader) }; return ..., Errors{e}\<close>.\<close>

definition request_fail_debug ::
  "Client \<Rightarrow> Error \<Rightarrow> http_Request option \<Rightarrow> bytes_Reader \<Rightarrow> request_result outcome" where
  "request_fail_debug c e req reqReader =
     (if debug c then
        (case withRequest e req reqReader of
           Panic \<Rightarrow> Panic
         | Return (e', _) \<Rightarrow> request_fail e')
      else request_fail e)"

text \<open>
  Lines 218 to 257 of \<^verbatim>\<open>request\<close>: from the response to the reader \<open>r\<close> the envelope is
  decoded from, and the \<^verbatim>\<open>respReader\<close> kept in debug mode; or an early return. After
  \<^verbatim>\<open>gzip.NewReader\<close> the code still reads \<^verbatim>\<open>resp.Body\<close> itself, both for the body of a
  \<^verbatim>\<open>NetworkError\<close> and for the debug copy.
\<close>

definition open_body ::
  "('v, 'x, 'q, 'o) lib \<Rightarrow> Client \<Rightarrow> http_Request \<Rightarrow> bytes_Reader \<Rightarrow> http_Response
     \<Rightarrow> request_result outcome + stream \<times> bytes_Reader option" where
  "open_body lib c request reqReader resp =
     (case (if Header_Get (resp_Header resp) ''Content-Encoding'' = ''gzip''
            then gzip_NewReader lib (Body resp)
            else Inr (Body resp, Body resp)) of
        Inl e \<Rightarrow>
          Inl (request_fail (newError (StatusText lib) ErrJsonDecode
                 (wrapError ''problem trying to create gzip reader: '' e)))
      | Inr (resp_Body, r) \<Rightarrow>
          if StatusCode resp \<noteq> 200 then
            Inl (request_fail_debug c
                   (newError (StatusText lib) ErrRequestError
                      (networkError
                         \<lparr>body = content resp_Body, statusCode = StatusCode resp\<rparr>))
                   (Some request) reqReader)
          else if debug c then
            (case read_err resp_Body of
               Some e \<Rightarrow> Inl (request_fail (newError (StatusText lib) ErrJsonDecode e))
             | None \<Rightarrow>
                 Inr (reader_stream (NewReader (content resp_Body)),
                      Some (NewReader (content resp_Body))))
          else Inr (r, None))"

text \<open>
  Lines 259 to 294: decoding the envelope from \<open>r\<close>. In debug mode \<^verbatim>\<open>respReader\<close> is
  rewound after the decoder has read from it (a nil \<^verbatim>\<open>respReader\<close> would panic there).
\<close>

definition decode_envelope ::
  "('v, 'x, 'q, 'o) lib \<Rightarrow> Client \<Rightarrow> http_Request \<Rightarrow> bytes_Reader \<Rightarrow> http_Response
     \<Rightarrow> stream \<Rightarrow> bytes_Reader option \<Rightarrow> request_result outcome" where
  "decode_envelope lib c request reqReader resp r respReader0 =
     (case (if debug c then
              (case respReader0 of None \<Rightarrow> Panic | Some rd \<Rightarrow> Return (Some (Seek0 rd)))
            else Return respReader0) of
        Panic \<Rightarrow> Panic
      | Return respReader \<Rightarrow>
          (case json_Decode lib r of
             Inl e \<Rightarrow>
               if debug c then
                 (case withRequest_withResponse
                         (newError (StatusText lib) ErrJsonDecode e)
                         request reqReader resp respReader of
                    Panic \<Rightarrow> Panic
                  | Return (we, _) \<Rightarrow> request_fail we)
               else request_fail (newError (StatusText lib) ErrJsonDecode e)
           | Inr out \<Rightarrow>
               (let rawData =
                      (case out_Data out of
                         Some d \<Rightarrow> if length d > 0 then d else []
                       | None \<Rightarrow> []);
                    extensions =
                      (case out_Extensions out of
                         Some x \<Rightarrow> if length x > 0 then x else []
                       | None \<Rightarrow> [])
                in if length (out_Errors out) > 0 then
                     if debug c \<and>
                        (case Extensions (hd (out_Errors out)) of
                           None \<Rightarrow> True
                         | Some m \<Rightarrow> map_of m ''request'' = None
                                     \<or> map_of m ''request'' = Some ANil)
                     then
                       (case withRequest_withResponse (hd (out_Errors out))
                               request reqReader resp respReader of
                          Panic \<Rightarrow> Panic
                        | Return (e0, respBuf) \<Rightarrow>
                            Return (rawData, extensions, Some resp, respBuf,
                                    (out_Errors out)[0 := e0]))
                     else Return (rawData, extensions, Some resp,
                                  bytes_Reader_ptr respReader, out_Errors out)
                   else Return (rawData, extensions, Some resp,
                                bytes_Reader_ptr respReader, []))))"

text \<open>Lines 209 to 295: what \<^verbatim>\<open>request\<close> does with the result of \<^verbatim>\<open>Do\<close>.\<close>

definition request_response ::
  "('v, 'x, 'q, 'o) lib \<Rightarrow> Client \<Rightarrow> http_Request \<Rightarrow> bytes_Reader
     \<Rightarrow> go_error + http_Response \<Rightarrow> request_result outcome" where
  "request_response lib c request reqReader result =
     (case result of
        Inl e \<Rightarrow>
          request_fail_debug c (newError (StatusText lib) ErrRequestError e)
            (Some request) reqReader
      | Inr resp \<Rightarrow>
          (case open_body lib c request reqReader resp of
             Inl early \<Rightarrow> early
           | Inr (r, respReader) \<Rightarrow>
               decode_envelope lib c request reqReader resp r respReader))"

text \<open>Lines 197 to 201: the content type is added, then the request modifier, if the
  client has one, is applied.\<close>

definition modified_request :: "Client \<Rightarrow> http_Request \<Rightarrow> http_Request" where
  "modified_request c request0 =
     (let request1 =
            request0\<lparr>req_Header :=
              Header_Add (req_Header request0) ''Content-Type'' ''application/json''\<rparr>
      in case requestModifier c of None \<Rightarrow> request1 | Some f \<Rightarrow> f request1)"

text \<open>
  \<^verbatim>\<open>request\<close>: encode the payload, build the request, apply the modifier, dispatch,
  then the stages above. In debug mode the reader of the request body is rewound
  after \<^verbatim>\<open>Do\<close>.
\<close>

definition request ::
  "('v, 'x, 'q, 'o) lib \<Rightarrow> Client \<Rightarrow> string \<Rightarrow> 'q \<Rightarrow> 'x constructOptionsOutput option
     \<Rightarrow> request_result outcome" where
  "request lib c query variables options =
     (case json_Encode lib
             \<lparr>Query = query, Variables = variables,
              OperationName = (case options of None \<Rightarrow> [] | Some opts \<Rightarrow> operationName opts)\<rparr> of
        Inl e \<Rightarrow> request_fail (newError (StatusText lib) ErrGraphQLEncode e)
      | Inr b \<Rightarrow>
          (case NewRequestWithContext lib ''POST'' (url c) b of
             Inl e \<Rightarrow>
               request_fail_debug c
                 (newError (StatusText lib) ErrRequestError
                    (wrapError ''problem constructing request: '' e))
                 None (NewReader b)
           | Inr request0 \<Rightarrow>
               (let d = httpClient c (modified_request c request0);
                    reqReader0 = (NewReader b)\<lparr>off := ReqOff d\<rparr>;
                    reqReader = (if debug c then Seek0 reqReader0 else reqReader0)
                in request_response lib c (Sent d) reqReader (Result d))))"

subsection \<open>processResponse and do\<close>

text \<open>What a call leaves behind: the contents of the typed output \<^verbatim>\<open>v\<close>, the contents
  of the extensions target if \<^verbatim>\<open>json.Unmarshal\<close> wrote to it, and the returned
  \<^verbatim>\<open>error\<close> (\<open>None\<close> for nil).\<close>

type_synonym ('v, 'x) do_result = "'v \<times> 'x option \<times> Errors option"

definition processResponse ::
  "('v, 'x, 'q, 'o) lib \<Rightarrow> Client \<Rightarrow> 'v \<Rightarrow> bytes \<Rightarrow> 'x option \<Rightarrow> bytes
     \<Rightarrow> http_Response option \<Rightarrow> io_Reader \<Rightarrow> Errors \<Rightarrow> ('v, 'x) do_result outcome" where
  "processResponse lib c v data exts rawExtensions resp respBuf errs =
     (case (if length data > 0 then
              (case UnmarshalGraphQL lib data v of
                 (v', None) \<Rightarrow> Return (v', errs)
               | (v', Some e) \<Rightarrow>
                   if debug c then
                     (case withResponse (newError (StatusText lib) ErrGraphQLDecode e)
                             resp respBuf of
                        Panic \<Rightarrow> Panic
                      | Return (we, _) \<Rightarrow> Return (v', errs @ [we]))
                   else Return (v', errs @ [newError (StatusText lib) ErrGraphQLDecode e]))
            else Return (v, errs)) of
        Panic \<Rightarrow> Panic
      | Return (v1, errs1) \<Rightarrow>
          (case (if length rawExtensions > 0 then
                   (case exts of
                      None \<Rightarrow> (None, errs1)
                    | Some x \<Rightarrow>
                        (case json_Unmarshal lib rawExtensions x of
                           (x', None) \<Rightarrow> (Some x', errs1)
                         | (x', Some e) \<Rightarrow>
                             (Some x',
                              errs1 @ [newError (StatusText lib) ErrGraphQLExtensionsDecode e])))
                 else (None, errs1)) of
             (x1, errs2) \<Rightarrow>
               Return (v1, x1, if length errs2 > 0 then Some errs2 else None)))"

definition Client_do ::
  "('v, 'x, 'q, 'o) lib \<Rightarrow> Client \<Rightarrow> operationType \<Rightarrow> 'v \<Rightarrow> 'q \<Rightarrow> 'o list
     \<Rightarrow> ('v, 'x) do_result outcome" where
  "Client_do lib c op v variables options =
     (case buildQueryAndOptions lib c op v variables options of
        Inl errs \<Rightarrow> Return (v, None, Some errs)
      | Inr (query, optionsOutput) \<Rightarrow>
          (case request lib c query variables (Some optionsOutput) of
             Panic \<Rightarrow> Panic
           | Return (data, extData, resp, respBuf, errs) \<Rightarrow>
               processResponse lib c v data (extensions optionsOutput) extData
                 resp respBuf errs))"

definition Client_Query ::
  "('v, 'x, 'q, 'o) lib \<Rightarrow> Client \<Rightarrow> 'v \<Rightarrow> 'q \<Rightarrow> 'o list \<Rightarrow> ('v, 'x) do_result outcome" where
  "Client_Query lib c q variables options = Client_do lib c queryOperation q variables options"

definition Client_Mutate ::
  "('v, 'x, 'q, 'o) lib \<Rightarrow> Client \<Rightarrow> 'v \<Rightarrow> 'q \<Rightarrow> 'o list \<Rightarrow> ('v, 'x) do_result outcome" where
  "Client_Mutate lib c m variables options =
     Client_do lib c mutationOperation m variables options"

subsection \<open>Deriving clients\<close>

text \<open>\<^verbatim>\<open>WithRequestModifier\<close> does not copy \<^verbatim>\<open>debug\<close>: the new struct has the zero
  value.\<close>

definition WithRequestModifier :: "Client \<Rightarrow> RequestModifier option \<Rightarrow> Client" where
  "WithRequestModifier c f =
     \<lparr>url = url c, httpClient = httpClient c, requestModifier = f, debug = False\<rparr>"

definition WithDebug :: "Client \<Rightarrow> bool \<Rightarrow> Client" where
  "WithDebug c dbg =
     \<lparr>url = url c, httpClient = httpClient c, requestModifier = requestModifier c,
      debug = dbg\<rparr>"

text \<open>
  Both methods take a \<^verbatim>\<open>*Client\<close> and return a pointer to a freshly allocated struct.
  With the clients in a store (the address of a client is its index; allocation appends;
  a pointer outside the store stands for nil, whose dereference panics):
\<close>

type_synonym store = "Client list"

definition WithRequestModifier_ptr ::
  "store \<Rightarrow> nat \<Rightarrow> RequestModifier option \<Rightarrow> (store \<times> nat) outcome" where
  "WithRequestModifier_ptr s p f =
     (if p < length s then Return (s @ [WithRequestModifier (s ! p) f], length s)
      else Panic)"

definition WithDebug_ptr :: "store \<Rightarrow> nat \<Rightarrow> bool \<Rightarrow> (store \<times> nat) outcome" where
  "WithDebug_ptr s p dbg =
     (if p < length s then Return (s @ [WithDebug (s ! p) dbg], length s)
      else Panic)"

subsection \<open>Example values\<close>

text \<open>A transport that is down, and a client of the action's API built on it.\<close>

definition down_transport :: Doer where
  "down_transport rq = \<lparr>Sent = rq, ReqOff = 0, Result = Inl (errorString ''connection refused'')\<rparr>"

definition example_client :: Client where
  "example_client =
     \<lparr>url = ''https://api.trynova.ai/graphql'', httpClient = down_transport,
      requestModifier = None, debug = False\<rparr>"

text \<open>A transport that answers every request with one response, and reads the whole
  request body; the client of \<^verbatim>\<open>addArtifact\<close> on it, with or without debug.\<close>

definition answering :: "http_Response \<Rightarrow> Doer" where
  "answering resp rq = \<lparr>Sent = rq, ReqOff = length (req_Body rq), Result = Inr resp\<rparr>"

definition client_on :: "bool \<Rightarrow> http_Response \<Rightarrow> Client" where
  "client_on dbg resp =
     \<lparr>url = ''https://api.trynova.ai/graphql'', httpClient = answering resp,
      requestModifier = None, debug = dbg\<rparr>"

definition plain_response :: "int \<Rightarrow> bytes \<Rightarrow> http_Response" where
  "plain_response code b =
     \<lparr>StatusCode = code,
      resp_Header = [(''Content-Type'', [''application/json''])],
      Body = \<lparr>content = b, read_err = None\<rparr>\<rparr>"

definition gzip_response :: "int \<Rightarrow> bytes \<Rightarrow> http_Response" where
  "gzip_response code b =
     \<lparr>StatusCode = code,
      resp_Header = [(''Content-Type'', [''application/json'']),
                     (''Content-Encoding'', [''gzip''])],
      Body = \<lparr>content = b, read_err = None\<rparr>\<rparr>"

text \<open>The envelope of the specification's example,
  \<^verbatim>\<open>{"data": {"addArtifact": {"id": "abc123"}}}\<close>, and its data.\<close>

definition quoted :: "string \<Rightarrow> string" where
  "quoted s = CHR 0x22 # s @ [CHR 0x22]"

definition example_data :: bytes where
  "example_data =
     ''{'' @ quoted ''addArtifact'' @ '': {'' @ quoted ''id'' @ '': '' @ quoted ''abc123'' @ ''}}''"

definition example_envelope :: bytes where
  "example_envelope = ''{'' @ quoted ''data'' @ '': '' @ example_data @ ''}''"

text \<open>
  Stand-ins for the library, for evaluating the pipeline on examples. The typed output is
  the artifact id. The JSON decoder is a table from bodies to decoded envelopes; the
  GraphQL decoder knows the example data; \<open>constructMutation\<close> gives the
  \<^verbatim>\<open>addArtifact\<close> mutation; the stand-in for gzip takes a body that starts
  with \<open>GZ\<close> for the compressed form of the rest, and consumes the whole body when it
  reads the header.
\<close>

definition example_StatusText :: "int \<Rightarrow> string" where
  "example_StatusText n =
     (if n = 500 then ''Internal Server Error''
      else if n = 404 then ''Not Found''
      else if n = 201 then ''Created''
      else if n = 200 then ''OK'' else [])"

definition example_gzip :: "stream \<Rightarrow> go_error + stream \<times> stream" where
  "example_gzip s =
     (if take 2 (content s) = ''GZ''
      then Inr (\<lparr>content = [], read_err = read_err s\<rparr>,
                \<lparr>content = drop 2 (content s), read_err = read_err s\<rparr>)
      else Inl (errorString ''gzip: invalid header''))"

definition example_Decode :: "(bytes \<times> out_struct) list \<Rightarrow> stream \<Rightarrow> go_error + out_struct" where
  "example_Decode tbl r =
     (case map_of tbl (content r) of
        Some out \<Rightarrow> Inr out
      | None \<Rightarrow> Inl (errorString ''invalid character looking for beginning of value''))"

definition example_UnmarshalGraphQL :: "bytes \<Rightarrow> string \<Rightarrow> string \<times> go_error option" where
  "example_UnmarshalGraphQL d v =
     (if d = example_data then (''abc123'', None)
      else (v, Some (errorString ''struct field for id does not exist'')))"

definition example_Unmarshal :: "bytes \<Rightarrow> string \<Rightarrow> string \<times> go_error option" where
  "example_Unmarshal raw x =
     (if raw = ''{}'' then (raw, None)
      else (x, Some (errorString ''json: cannot unmarshal array into Go value'')))"

definition example_mutation :: string where
  "example_mutation = ''mutation ($input: AddArtifactInput!){addArtifact(input: $input){id}}''"

definition example_lib :: "(bytes \<times> out_struct) list \<Rightarrow> (string, string, unit, unit) lib" where
  "example_lib tbl =
     \<lparr>StatusText = example_StatusText,
      DefaultClient = down_transport,
      constructQuery = (\<lambda>v q os. Inl (errorString ''no fields to query'')),
      constructMutation =
        (\<lambda>v q os. Inr (example_mutation, \<lparr>operationName = [], extensions = None\<rparr>)),
      json_Encode = (\<lambda>p. Inr (Query p)),
      NewRequestWithContext =
        (\<lambda>m u b. if u = [] then Inl (errorString ''missing protocol scheme'')
                  else Inr \<lparr>req_Method = m, req_URL = u, req_Header = [], req_Body = b\<rparr>),
      gzip_NewReader = example_gzip,
      json_Decode = example_Decode tbl,
      UnmarshalGraphQL = example_UnmarshalGraphQL,
      json_Unmarshal = example_Unmarshal\<rparr>"

text \<open>An error as a server sends it (\<^verbatim>\<open>err\<close> is unexported: the decoder leaves it
  nil).\<close>

definition server_error :: "string \<Rightarrow> (string \<times> any) list option \<Rightarrow> Error" where
  "server_error msg ext =
     \<lparr>Message = msg, Extensions = ext, Locations = [], Path = [], err = None\<rparr>"

text \<open>An envelope whose data does not fit the typed output, with one error of the
  server.\<close>

definition bad_data :: bytes where
  "bad_data = ''{'' @ quoted ''addArtifact'' @ '': 7}''"

definition bad_data_envelope :: bytes where
  "bad_data_envelope =
     ''{'' @ quoted ''data'' @ '': '' @ bad_data @ '', '' @ quoted ''errors'' @ '': [{''
       @ quoted ''message'' @ '': '' @ quoted ''not found'' @ ''}]}''"

definition bad_data_table :: "(bytes \<times> out_struct) list" where
  "bad_data_table =
     [(bad_data_envelope,
       \<lparr>out_Data = Some bad_data, out_Extensions = None,
        out_Errors = [server_error ''not found'' None]\<rparr>)]"

text \<open>An envelope whose extensions are not what the bound target expects.\<close>

definition bad_extensions_envelope :: bytes where
  "bad_extensions_envelope =
     ''{'' @ quoted ''data'' @ '': '' @ example_data @ '', '' @ quoted ''extensions'' @ '': [1]}''"

definition bad_extensions_table :: "(bytes \<times> out_struct) list" where
  "bad_extensions_table =
     [(bad_extensions_envelope,
       \<lparr>out_Data = Some example_data, out_Extensions = Some ''[1]'', out_Errors = []\<rparr>)]"

text \<open>The decoder's table for the example envelope.\<close>

definition example_table :: "(bytes \<times> out_struct) list" where
  "example_table =
     [(example_envelope,
       \<lparr>out_Data = Some example_data, out_Extensions = None, out_Errors = []\<rparr>)]"




text \<open>An envelope with data and one error whose \<^verbatim>\<open>"internal"\<close> extension is a string.\<close>

definition internal_string_envelope :: bytes where
  "internal_string_envelope =
     ''{'' @ quoted ''data'' @ '': '' @ example_data @ '', '' @ quoted ''errors'' @ '': [{''
       @ quoted ''message'' @ '': '' @ quoted ''boom'' @ '', '' @ quoted ''extensions''
       @ '': {'' @ quoted ''internal'' @ '': '' @ quoted ''details'' @ ''}}]}''"

definition internal_string_table :: "(bytes \<times> out_struct) list" where
  "internal_string_table =
     [(internal_string_envelope,
       \<lparr>out_Data = Some example_data, out_Extensions = None,
        out_Errors = [server_error ''boom'' (Some [(''internal'', AString ''details'')])]\<rparr>)]"

text \<open>What the callers of \<^verbatim>\<open>request\<close> that decode nothing keep of its result
  (\<^verbatim>\<open>ExecRawWithExtensions\<close>: \<^verbatim>\<open>data, ext, _, _, errs := c.request(...)\<close>).\<close>

definition returned_payload :: "request_result outcome \<Rightarrow> (bytes \<times> bytes \<times> Errors) outcome" where
  "returned_payload res =
     (case res of Panic \<Rightarrow> Panic | Return (data, ext, _, _, errs) \<Rightarrow> Return (data, ext, errs))"

text \<open>An envelope with the example data and one error.\<close>

definition partial_envelope :: bytes where
  "partial_envelope =
     ''{'' @ quoted ''data'' @ '': '' @ example_data @ '', '' @ quoted ''errors'' @ '': [{''
       @ quoted ''message'' @ '': '' @ quoted ''boom'' @ ''}]}''"

definition partial_table :: "(bytes \<times> out_struct) list" where
  "partial_table =
     [(partial_envelope,
       \<lparr>out_Data = Some example_data, out_Extensions = None,
        out_Errors = [server_error ''boom'' None]\<rparr>)]"

subsection \<open>Errors built by the pipeline\<close>

text \<open>\<open>coded st code ge e\<close>: the error \<open>e\<close> has a non-nil \<^verbatim>\<open>Extensions\<close> map that binds
  \<^verbatim>\<open>"code"\<close> to the string \<open>code\<close>, wraps the Go error \<open>ge\<close>, and its message is the
  message of \<open>ge\<close>.\<close>

definition coded :: "(int \<Rightarrow> string) \<Rightarrow> string \<Rightarrow> go_error \<Rightarrow> Error \<Rightarrow> bool" where
  "coded st code ge e \<longleftrightarrow>
     (\<exists>m. Extensions e = Some m \<and> map_of m ''code'' = Some (AString code))
     \<and> err e = Some ge \<and> Message e = error_Error st ge"

text \<open>
  Where the errors of a returned collection come from. \<open>from_envelope lib c e\<close>: \<open>e\<close> is an
  error of a decoded envelope, as the JSON decoder gave it, or, in debug mode, with the
  request and the response attached by \<^verbatim>\<open>withRequest\<close> and \<^verbatim>\<open>withResponse\<close>.
\<close>

definition from_envelope :: "('v, 'x, 'q, 'o) lib \<Rightarrow> Client \<Rightarrow> Error \<Rightarrow> bool" where
  "from_envelope lib c e \<longleftrightarrow>
     (\<exists>r out. json_Decode lib r = Inr out
        \<and> (e \<in> set (out_Errors out)
           \<or> debug c \<and> (\<exists>rq rd resp rr rb.
                 withRequest_withResponse (hd (out_Errors out)) rq rd resp rr = Return (e, rb))))"

text \<open>
  The failures of the calls the pipeline makes, each with the Go error \<open>ge\<close> that is handed
  to \<^verbatim>\<open>newError\<close> and the code it is handed with. \<open>body_failure\<close>: \<^verbatim>\<open>gzip.NewReader\<close> fails
  (the error is wrapped by \<^verbatim>\<open>fmt.Errorf\<close>), the status is not 200 (the error is a
  \<^verbatim>\<open>NetworkError\<close> with the status and what is read from \<^verbatim>\<open>resp.Body\<close>), or, in debug
  mode, reading \<^verbatim>\<open>resp.Body\<close> fails. \<open>dispatch_failure\<close>: the transport fails, or one of
  these, or the JSON decoder fails. \<open>request_failure\<close>: the payload is not encoded, or the
  request is not constructed (wrapped by \<^verbatim>\<open>fmt.Errorf\<close>), or one of these.
  \<open>do_failure\<close>: the query is not built, or one of these, or the data or the extensions are
  not unmarshalled.
\<close>

definition body_failure ::
  "('v, 'x, 'q, 'o) lib \<Rightarrow> Client \<Rightarrow> http_Response \<Rightarrow> string \<Rightarrow> go_error \<Rightarrow> bool" where
  "body_failure lib c resp code ge \<longleftrightarrow>
     code = ErrJsonDecode
       \<and> (\<exists>ge'. gzip_NewReader lib (Body resp) = Inl ge'
             \<and> ge = wrapError ''problem trying to create gzip reader: '' ge')
     \<or> (\<exists>raw. (raw = Body resp \<or> (\<exists>r. gzip_NewReader lib (Body resp) = Inr (raw, r)))
          \<and> (code = ErrRequestError \<and> StatusCode resp \<noteq> 200
               \<and> ge = networkError \<lparr>body = content raw, statusCode = StatusCode resp\<rparr>
             \<or> code = ErrJsonDecode \<and> debug c \<and> read_err raw = Some ge))"

definition dispatch_failure ::
  "('v, 'x, 'q, 'o) lib \<Rightarrow> Client \<Rightarrow> string \<Rightarrow> go_error \<Rightarrow> bool" where
  "dispatch_failure lib c code ge \<longleftrightarrow>
     code = ErrRequestError \<and> (\<exists>rq. Result (httpClient c rq) = Inl ge)
     \<or> (\<exists>rq resp. Result (httpClient c rq) = Inr resp \<and> body_failure lib c resp code ge)
     \<or> code = ErrJsonDecode \<and> (\<exists>r. json_Decode lib r = Inl ge)"

definition request_failure ::
  "('v, 'x, 'q, 'o) lib \<Rightarrow> Client \<Rightarrow> string \<Rightarrow> 'q \<Rightarrow> string \<Rightarrow> go_error \<Rightarrow> bool" where
  "request_failure lib c q vars code ge \<longleftrightarrow>
     code = ErrGraphQLEncode
       \<and> (\<exists>n. json_Encode lib \<lparr>Query = q, Variables = vars, OperationName = n\<rparr> = Inl ge)
     \<or> code = ErrRequestError
       \<and> (\<exists>b ge'. NewRequestWithContext lib ''POST'' (url c) b = Inl ge'
             \<and> ge = wrapError ''problem constructing request: '' ge')
     \<or> dispatch_failure lib c code ge"

definition do_failure ::
  "('v, 'x, 'q, 'o) lib \<Rightarrow> Client \<Rightarrow> operationType \<Rightarrow> 'v \<Rightarrow> 'q \<Rightarrow> 'o list
     \<Rightarrow> string \<Rightarrow> go_error \<Rightarrow> bool" where
  "do_failure lib c op v vars options code ge \<longleftrightarrow>
     code = ErrGraphQLEncode
       \<and> (op = queryOperation \<and> constructQuery lib v vars options = Inl ge
          \<or> op = mutationOperation \<and> constructMutation lib v vars options = Inl ge
          \<or> op \<noteq> queryOperation \<and> op \<noteq> mutationOperation
            \<and> ge = errorString (''invalid operation type: '' @ itoa (uint op)))
     \<or> (\<exists>q. request_failure lib c q vars code ge)
     \<or> code = ErrGraphQLDecode
       \<and> (\<exists>d. d \<noteq> [] \<and> snd (UnmarshalGraphQL lib d v) = Some ge)
     \<or> code = ErrGraphQLExtensionsDecode
       \<and> (\<exists>x y. x \<noteq> [] \<and> snd (json_Unmarshal lib x y) = Some ge)"

section \<open>Properties\<close>

subsection \<open>Facts about the error constructors\<close>

lemma coded_newError: "coded st code ge (newError st code ge)"
  by (simp add: coded_def newError_def)


lemma getInternalExtension_newError: "getInternalExtension (newError st code ge) = Return []"
  by (simp add: getInternalExtension_def newError_def)

lemma withRequest_fields:
  assumes "withRequest e rq rd = Return (e', rd')"
  shows "err e' = err e \<and> Message e' = Message e \<and> Locations e' = Locations e
    \<and> Path e' = Path e
    \<and> (\<exists>m'. Extensions e' = Some m' \<and> (\<forall>k. k \<noteq> ''internal'' \<longrightarrow>
        map_of m' k = map_of (case Extensions e of None \<Rightarrow> [] | Some m \<Rightarrow> m) k))"
  using assms
  by (auto simp: withRequest_def ReadAll_bytes_def update_conv'
      split: outcome.splits option.splits)

lemma withResponse_fields:
  assumes "withResponse e rs rb = Return (e', rb')"
  shows "err e' = err e \<and> Message e' = Message e \<and> Locations e' = Locations e
    \<and> Path e' = Path e
    \<and> (\<exists>m m'. Extensions e = Some m \<and> Extensions e' = Some m' \<and> (\<forall>k. k \<noteq> ''internal'' \<longrightarrow>
        map_of m' k = map_of m k))"
  using assms
  by (auto simp: withResponse_def ReadAll_bytes_def update_conv'
      split: outcome.splits option.splits io_Reader.splits)

lemma coded_withRequest:
  "coded st code ge e \<Longrightarrow> withRequest e rq rd = Return (e', rd') \<Longrightarrow> coded st code ge e'"
  using withRequest_fields [of e rq rd e' rd']
  by (auto simp: coded_def)

lemma coded_withResponse:
  "coded st code ge e \<Longrightarrow> withResponse e rs rb = Return (e', rb') \<Longrightarrow> coded st code ge e'"
  using withResponse_fields [of e rs rb e' rb']
  by (auto simp: coded_def)

lemma withRequest_withResponse_fields:
  assumes "withRequest_withResponse e rq rd resp rr = Return (e', rb)"
  shows "err e' = err e \<and> Message e' = Message e \<and> Locations e' = Locations e
    \<and> Path e' = Path e"
proof -
  from assms obtain e1 rd1 where
    a: "withRequest e (Some rq) rd = Return (e1, rd1)"
    and b: "withResponse e1 (Some resp) (bytes_Reader_ptr rr) = Return (e', rb)"
    by (auto simp: withRequest_withResponse_def split: outcome.splits)
  show ?thesis
    using withRequest_fields [OF a] withResponse_fields [OF b] by simp
qed

lemma coded_withRequest_withResponse:
  "coded st code ge e \<Longrightarrow> withRequest_withResponse e rq rd resp rr = Return (e', rb)
     \<Longrightarrow> coded st code ge e'"
  by (auto simp: withRequest_withResponse_def split: outcome.splits
      dest: coded_withRequest coded_withResponse)

lemma withResponse_newError:
  "withResponse (newError st code ge) (Some rs) (bytes_Reader_ptr (Some rd))
     = Return ((newError st code ge)\<lparr>Extensions :=
                  Some [(''code'', AString code),
                        (''internal'', AMap [(''response'',
                           AMap [(''headers'', AHeader (resp_Header rs)),
                                 (''body'', AString (drop (off rd) (buf rd)))])])]\<rparr>,
               bytes_Reader_ptr (Some (rd\<lparr>off := length (buf rd)\<rparr>)))"
  by (simp add: withResponse_def newError_def getInternalExtension_def ReadAll_bytes_def)

lemma withResponse_reader:
  assumes "withResponse e rs (bytes_Reader_ptr (Some rd)) = Return (e', rb)"
  shows "rb = bytes_Reader_ptr (Some (rd\<lparr>off := length (buf rd)\<rparr>))"
  using assms
  by (auto simp: withResponse_def ReadAll_bytes_def split: outcome.splits option.splits)

lemma withRequest_withResponse_capture:
  assumes "getInternalExtension e = Return internal"
  shows "withRequest_withResponse e rq rd resp (Some rr)
    = Return
        (e\<lparr>Extensions :=
             Some (AList.update ''internal''
               (AMap (AList.update ''response''
                  (AMap [(''headers'', AHeader (resp_Header resp)),
                         (''body'', AString (drop (off rr) (buf rr)))])
                  (AList.update ''request''
                     (AMap [(''headers'', AHeader (req_Header rq)),
                            (''body'', AString (drop (off rd) (buf rd)))])
                     internal)))
               (case Extensions e of None \<Rightarrow> [] | Some m \<Rightarrow> m))\<rparr>,
         bytes_Reader_ptr (Some (rr\<lparr>off := length (buf rr)\<rparr>)))"
  using assms
  by (simp add: withRequest_withResponse_def withRequest_def withResponse_def
      ReadAll_bytes_def getInternalExtension_def update_conv')


lemma request_fail_debug_coded:
  assumes "coded st code ge e" and "request_fail_debug c e rq rd = Return res"
  shows "\<exists>e'. res = ([], [], None, nil_Reader, [e']) \<and> coded st code ge e'"
  using assms
  by (auto simp: request_fail_debug_def request_fail_def
      split: if_splits outcome.splits dest: coded_withRequest)

lemma request_fail_debug_newError:
  "\<exists>e. request_fail_debug c (newError st code ge) (Some rq) rd
          = Return ([], [], None, nil_Reader, [e])
       \<and> coded st code ge e"
proof (cases "debug c")
  case True
  have "withRequest (newError st code ge) (Some rq) rd
          = Return ((newError st code ge)\<lparr>Extensions :=
                Some [(''code'', AString code),
                      (''internal'', AMap [(''request'',
                         AMap [(''headers'', AHeader (req_Header rq)),
                               (''body'', AString (drop (off rd) (buf rd)))])])]\<rparr>,
              rd\<lparr>off := length (buf rd)\<rparr>)"
    by (simp add: withRequest_def getInternalExtension_def newError_def ReadAll_bytes_def)
  with True show ?thesis
    by (simp add: request_fail_debug_def request_fail_def coded_def newError_def)
next
  case False
  then show ?thesis
    by (simp add: request_fail_debug_def request_fail_def coded_newError)
qed

subsection \<open>Facts about request\<close>

lemma reader_stream_NewReader:
  "reader_stream (NewReader b) = \<lparr>content = b, read_err = None\<rparr>"
  by (simp add: reader_stream_def NewReader_def)

lemma open_body_early:
  assumes "open_body lib c rq rd resp = Inl (Return res)"
  shows "\<exists>e' code ge. res = ([], [], None, nil_Reader, [e'])
           \<and> coded (StatusText lib) code ge e'
           \<and> (code = ErrJsonDecode \<or> code = ErrRequestError)"
proof -
  note cn = coded_newError [of "StatusText lib"]
  show ?thesis
    using assms
    by (auto simp: open_body_def request_fail_def
        split: if_splits sum.splits option.splits prod.splits
        dest!: request_fail_debug_coded [OF cn] intro: cn)
qed

lemma open_body_reader:
  assumes "open_body lib c rq rd resp = Inr (r, rr)"
  shows "debug c \<longleftrightarrow> (\<exists>rd0. rr = Some rd0)"
  using assms
  by (auto simp: open_body_def split: sum.splits prod.splits if_splits option.splits)

lemma open_body_ok:
  assumes "StatusCode resp = 200"
    and "(if Header_Get (resp_Header resp) ''Content-Encoding'' = ''gzip''
          then gzip_NewReader lib (Body resp) else Inr (Body resp, Body resp)) = Inr (raw, r)"
    and "debug c \<longrightarrow> read_err raw = None"
  shows "open_body lib c rq rd resp
         = Inr (if debug c then \<lparr>content = content raw, read_err = None\<rparr> else r,
                if debug c then Some (NewReader (content raw)) else None)"
  using assms(1,3)
  unfolding open_body_def assms(2)
  by (simp add: reader_stream_NewReader)

lemma open_body_non_200:
  assumes "StatusCode resp \<noteq> 200"
  shows "open_body lib c rq rd resp =
     Inl (case (if Header_Get (resp_Header resp) ''Content-Encoding'' = ''gzip''
                then gzip_NewReader lib (Body resp) else Inr (Body resp, Body resp)) of
            Inl e \<Rightarrow> request_fail (newError (StatusText lib) ErrJsonDecode
                       (wrapError ''problem trying to create gzip reader: '' e))
          | Inr (resp_Body, r) \<Rightarrow>
              request_fail_debug c
                (newError (StatusText lib) ErrRequestError
                   (networkError \<lparr>body = content resp_Body, statusCode = StatusCode resp\<rparr>))
                (Some rq) rd)"
  using assms
  by (simp add: open_body_def split: sum.splits prod.splits)

lemma map_update_hd: "xs \<noteq> [] \<Longrightarrow> (map f xs)[0 := f (hd xs)] = map f xs"
  by (cases xs) simp_all

lemma tl_update_0: "tl (xs[0 := y]) = tl xs"
  by (cases xs) simp_all

lemma decode_envelope_failed:
  assumes "json_Decode lib r = Inl e"
    and "decode_envelope lib c rq rd resp r rr = Return res"
  shows "\<exists>e'. res = ([], [], None, nil_Reader, [e'])
           \<and> coded (StatusText lib) ErrJsonDecode e e'"
  using assms coded_newError [of "StatusText lib" ErrJsonDecode e]
  by (auto simp: decode_envelope_def request_fail_def
      split: if_splits outcome.splits option.splits
      dest: coded_withRequest_withResponse)

lemma decode_envelope_decoded:
  assumes "json_Decode lib r = Inr out"
    and "decode_envelope lib c rq rd resp r rr = Return (d, x, rs, rb, errs)"
  shows "d = (case out_Data out of Some d \<Rightarrow> d | None \<Rightarrow> [])"
    and "x = (case out_Extensions out of Some x \<Rightarrow> x | None \<Rightarrow> [])"
    and "rs = Some resp"
    and "length errs = length (out_Errors out)"
    and "map err errs = map err (out_Errors out)"
    and "map Message errs = map Message (out_Errors out)"
    and "tl errs = tl (out_Errors out)"
    and "\<not> debug c \<Longrightarrow> errs = out_Errors out"
proof -
  have dx: "(case out_Data out of None \<Rightarrow> [] | Some d \<Rightarrow> if 0 < length d then d else [])
             = (case out_Data out of Some d \<Rightarrow> d | None \<Rightarrow> [])"
    "(case out_Extensions out of None \<Rightarrow> [] | Some d \<Rightarrow> if 0 < length d then d else [])
             = (case out_Extensions out of Some d \<Rightarrow> d | None \<Rightarrow> [])"
    by (simp_all split: option.splits)
  from assms(2) show "d = (case out_Data out of Some d \<Rightarrow> d | None \<Rightarrow> [])"
    and "x = (case out_Extensions out of Some x \<Rightarrow> x | None \<Rightarrow> [])"
    and "rs = Some resp"
    and "length errs = length (out_Errors out)"
    and "map err errs = map err (out_Errors out)"
    and "map Message errs = map Message (out_Errors out)"
    and "tl errs = tl (out_Errors out)"
    and "\<not> debug c \<Longrightarrow> errs = out_Errors out"
    unfolding decode_envelope_def Let_def assms(1) sum.case dx
    by (auto simp: map_update map_update_hd tl_update_0
        split: if_splits outcome.splits
        dest!: withRequest_withResponse_fields)
qed

lemma decode_envelope_reader:
  assumes "debug c" and "json_Decode lib r = Inr out"
    and "decode_envelope lib c rq rd resp r rr = Return (d, x, rs, rb, errs)"
  shows "\<exists>rd'. rb = bytes_Reader_ptr (Some rd')"
proof -
  from assms obtain rd0 where rr: "rr = Some rd0"
    by (auto simp: decode_envelope_def split: option.splits)
  have wr: "withRequest_withResponse e rq rd resp (Some rd1) = Return (e', rb')
      \<Longrightarrow> \<exists>rd'. rb' = bytes_Reader_ptr (Some rd')" for e rd1 e' rb'
    by (auto simp: withRequest_withResponse_def split: outcome.splits
        dest: withResponse_reader)
  from assms(3) show ?thesis
    unfolding decode_envelope_def Let_def assms(2) rr sum.case
    using assms(1)
    by (auto split: if_splits outcome.splits dest: wr)
qed


lemma request_response_Return_cases:
  assumes "request_response lib c rq rd result = Return (d, x, rs, rb, errs)"
  shows "(\<exists>e code ge. d = [] \<and> x = [] \<and> rs = None \<and> rb = nil_Reader \<and> errs = [e]
            \<and> coded (StatusText lib) code ge e
            \<and> (code = ErrRequestError \<or> code = ErrJsonDecode))
       \<or> (\<exists>resp r rr out. result = Inr resp \<and> json_Decode lib r = Inr out
            \<and> open_body lib c rq rd resp = Inr (r, rr)
            \<and> decode_envelope lib c rq rd resp r rr = Return (d, x, rs, rb, errs))"
proof (cases result)
  case (Inl e)
  with assms
  have "request_fail_debug c (newError (StatusText lib) ErrRequestError e) (Some rq) rd
          = Return (d, x, rs, rb, errs)"
    by (simp add: request_response_def)
  from request_fail_debug_coded [OF coded_newError this] show ?thesis by auto
next
  case res: (Inr resp)
  show ?thesis
  proof (cases "open_body lib c rq rd resp")
    case (Inl early)
    with assms res have "early = Return (d, x, rs, rb, errs)"
      by (simp add: request_response_def)
    with Inl open_body_early [of lib c rq rd resp "(d, x, rs, rb, errs)"]
    show ?thesis by auto
  next
    case (Inr p)
    obtain r rr where p: "p = (r, rr)" by (cases p)
    with assms res Inr
    have de: "decode_envelope lib c rq rd resp r rr = Return (d, x, rs, rb, errs)"
      by (simp add: request_response_def)
    show ?thesis
    proof (cases "json_Decode lib r")
      case (Inl e)
      from decode_envelope_failed [OF this de] show ?thesis by auto
    next
      case (Inr out)
      with de res p \<open>open_body lib c rq rd resp = Inr p\<close> show ?thesis
        by blast
    qed
  qed
qed

lemma request_Return_cases:
  assumes "request lib c q vars opts = Return (d, x, rs, rb, errs)"
  shows "(\<exists>e code ge. d = [] \<and> x = [] \<and> rs = None \<and> rb = nil_Reader \<and> errs = [e]
            \<and> coded (StatusText lib) code ge e
            \<and> (code = ErrGraphQLEncode \<or> code = ErrRequestError \<or> code = ErrJsonDecode))
       \<or> (\<exists>rq rd resp r rr out. json_Decode lib r = Inr out
            \<and> open_body lib c rq rd resp = Inr (r, rr)
            \<and> decode_envelope lib c rq rd resp r rr = Return (d, x, rs, rb, errs))"
proof (cases "json_Encode lib \<lparr>Query = q, Variables = vars,
              OperationName = (case opts of None \<Rightarrow> [] | Some opts \<Rightarrow> operationName opts)\<rparr>")
  case (Inl e)
  with assms coded_newError [of "StatusText lib" ErrGraphQLEncode e] show ?thesis
    by (auto simp: request_def request_fail_def)
next
  case enc: (Inr b)
  show ?thesis
  proof (cases "NewRequestWithContext lib ''POST'' (url c) b")
    case (Inl e)
    with assms enc
    have "request_fail_debug c (newError (StatusText lib) ErrRequestError
            (wrapError ''problem constructing request: '' e)) None (NewReader b)
          = Return (d, x, rs, rb, errs)"
      by (simp add: request_def)
    from request_fail_debug_coded [OF coded_newError this] show ?thesis by auto
  next
    case nr: (Inr request0)
    from assms obtain rq rd result where
      "request_response lib c rq rd result = Return (d, x, rs, rb, errs)"
      by (simp add: request_def enc nr Let_def)
    from request_response_Return_cases [OF this] show ?thesis by blast
  qed
qed

lemma request_data_reader:
  assumes "request lib c q vars opts = Return (d, x, rs, rb, errs)" and "d \<noteq> []"
  shows "(\<exists>resp. rs = Some resp) \<and> (debug c \<longrightarrow> (\<exists>rd. rb = bytes_Reader_ptr (Some rd)))"
proof -
  from request_Return_cases [OF assms(1)] assms(2)
  obtain rq rd resp r rr out where
    dec: "json_Decode lib r = Inr out"
    and de: "decode_envelope lib c rq rd resp r rr = Return (d, x, rs, rb, errs)"
    by auto
  from decode_envelope_decoded(3) [OF dec de] decode_envelope_reader [OF _ dec de]
  show ?thesis by auto
qed

lemma request_reaches_decoder:
  assumes "json_Encode lib \<lparr>Query = q, Variables = vars,
              OperationName = (case opts of None \<Rightarrow> [] | Some oo \<Rightarrow> operationName oo)\<rparr> = Inr b"
    and "NewRequestWithContext lib ''POST'' (url c) b = Inr rq0"
    and "Result (httpClient c (modified_request c rq0)) = Inr resp"
    and "StatusCode resp = 200"
    and "(if Header_Get (resp_Header resp) ''Content-Encoding'' = ''gzip''
          then gzip_NewReader lib (Body resp) else Inr (Body resp, Body resp)) = Inr (raw, r)"
    and "debug c \<longrightarrow> read_err raw = None"
  shows "request lib c q vars opts
         = decode_envelope lib c (Sent (httpClient c (modified_request c rq0)))
             (if debug c then NewReader b
              else (NewReader b)\<lparr>off := ReqOff (httpClient c (modified_request c rq0))\<rparr>)
             resp
             (if debug c then \<lparr>content = content raw, read_err = None\<rparr> else r)
             (if debug c then Some (NewReader (content raw)) else None)"
  using assms(1,2,3)
  by (simp add: request_def Let_def request_response_def open_body_ok [OF assms(4,5,6)]
      Seek0_def NewReader_def)



lemma request_returns_envelope:
  assumes "json_Encode lib \<lparr>Query = q, Variables = vars,
              OperationName = (case opts of None \<Rightarrow> [] | Some oo \<Rightarrow> operationName oo)\<rparr> = Inr b"
    and "NewRequestWithContext lib ''POST'' (url c) b = Inr rq0"
    and "Result (httpClient c (modified_request c rq0)) = Inr resp"
    and "StatusCode resp = 200"
    and "(if Header_Get (resp_Header resp) ''Content-Encoding'' = ''gzip''
          then gzip_NewReader lib (Body resp) else Inr (Body resp, Body resp)) = Inr (raw, r)"
    and "debug c \<longrightarrow> read_err raw = None"
    and "json_Decode lib (if debug c then \<lparr>content = content raw, read_err = None\<rparr> else r)
           = Inr out"
    and "out_Errors out = e0 # rest"
    and "debug c \<longrightarrow> (\<exists>i. getInternalExtension e0 = Return i)"
  shows "\<exists>rb e0'. request lib c q vars opts
            = Return (case out_Data out of Some d \<Rightarrow> d | None \<Rightarrow> [],
                      case out_Extensions out of Some x \<Rightarrow> x | None \<Rightarrow> [],
                      Some resp, rb, e0' # rest)
          \<and> Message e0' = Message e0 \<and> Locations e0' = Locations e0
          \<and> Path e0' = Path e0 \<and> err e0' = err e0
          \<and> (\<not> debug c \<longrightarrow> e0' = e0)"
proof -
  let ?r = "if debug c then \<lparr>content = content raw, read_err = None\<rparr> else r"
  let ?rr = "if debug c then Some (NewReader (content raw)) else None"
  let ?rq = "Sent (httpClient c (modified_request c rq0))"
  let ?rd = "if debug c then NewReader b
             else (NewReader b)\<lparr>off := ReqOff (httpClient c (modified_request c rq0))\<rparr>"
  note req = request_reaches_decoder [OF assms(1-6)]
  have dx: "(case out_Data out of None \<Rightarrow> [] | Some d \<Rightarrow> if 0 < length d then d else [])
             = (case out_Data out of Some d \<Rightarrow> d | None \<Rightarrow> [])"
    "(case out_Extensions out of None \<Rightarrow> [] | Some d \<Rightarrow> if 0 < length d then d else [])
             = (case out_Extensions out of Some d \<Rightarrow> d | None \<Rightarrow> [])"
    by (simp_all split: option.splits)
  show ?thesis
  proof (cases "debug c \<and> (case Extensions e0 of None \<Rightarrow> True
          | Some m \<Rightarrow> map_of m ''request'' = None \<or> map_of m ''request'' = Some ANil)")
    case False
    then have "decode_envelope lib c ?rq ?rd resp ?r ?rr
       = Return (case out_Data out of Some d \<Rightarrow> d | None \<Rightarrow> [],
                 case out_Extensions out of Some x \<Rightarrow> x | None \<Rightarrow> [],
                 Some resp, bytes_Reader_ptr (map_option Seek0 ?rr), e0 # rest)"
      unfolding decode_envelope_def Let_def assms(7) sum.case dx
      using assms(8) by (auto simp: dx)
    then show ?thesis unfolding req by auto
  next
    case True
    with assms(9) obtain i where i: "getInternalExtension e0 = Return i" by blast
    from True have dbg: "debug c" by simp
    note cap = withRequest_withResponse_capture [OF i, of ?rq "NewReader b" resp
        "Seek0 (NewReader (content raw))"]
    have "decode_envelope lib c ?rq ?rd resp ?r ?rr
       = Return (case out_Data out of Some d \<Rightarrow> d | None \<Rightarrow> [],
                 case out_Extensions out of Some x \<Rightarrow> x | None \<Rightarrow> [],
                 Some resp,
                 bytes_Reader_ptr (Some ((Seek0 (NewReader (content raw)))
                    \<lparr>off := length (buf (Seek0 (NewReader (content raw))))\<rparr>)),
                 (e0\<lparr>Extensions :=
                     Some (AList.update ''internal''
                       (AMap (AList.update ''response''
                          (AMap [(''headers'', AHeader (resp_Header resp)),
                                 (''body'', AString (drop (off (Seek0 (NewReader (content raw))))
                                     (buf (Seek0 (NewReader (content raw))))))])
                          (AList.update ''request''
                             (AMap [(''headers'', AHeader (req_Header ?rq)),
                                    (''body'', AString (drop (off (NewReader b))
                                                          (buf (NewReader b))))])
                             i)))
                       (case Extensions e0 of None \<Rightarrow> [] | Some m \<Rightarrow> m))\<rparr>) # rest)"
      unfolding decode_envelope_def Let_def sum.case dx
      using True assms(7,8) by (simp add: cap dx)
    then show ?thesis unfolding req using dbg by auto
  qed
qed


lemma open_body_early_origin:
  assumes "open_body lib c rq rd resp = Inl (Return res)"
  shows "\<exists>e code ge. res = ([], [], None, nil_Reader, [e])
           \<and> coded (StatusText lib) code ge e \<and> body_failure lib c resp code ge"
proof (cases "if Header_Get (resp_Header resp) ''Content-Encoding'' = ''gzip''
            then gzip_NewReader lib (Body resp) else Inr (Body resp, Body resp)")
  case (Inl ge')
  then have gz: "gzip_NewReader lib (Body resp) = Inl ge'"
    by (simp split: if_splits)
  from assms Inl
  have res: "res = ([], [], None, nil_Reader,
          [newError (StatusText lib) ErrJsonDecode
             (wrapError ''problem trying to create gzip reader: '' ge')])"
    by (simp add: open_body_def request_fail_def)
  from gz have "body_failure lib c resp ErrJsonDecode
                  (wrapError ''problem trying to create gzip reader: '' ge')"
    by (simp add: body_failure_def)
  with res coded_newError [of "StatusText lib" ErrJsonDecode
      "wrapError ''problem trying to create gzip reader: '' ge'"]
  show ?thesis by blast
next
  case (Inr p)
  obtain raw r where p: "p = (raw, r)" by (cases p)
  from Inr p have raw: "raw = Body resp \<or> (\<exists>r. gzip_NewReader lib (Body resp) = Inr (raw, r))"
    by (auto split: if_splits)
  show ?thesis
  proof (cases "StatusCode resp = 200")
    case False
    with assms Inr p
    have "request_fail_debug c
            (newError (StatusText lib) ErrRequestError
               (networkError \<lparr>body = content raw, statusCode = StatusCode resp\<rparr>))
            (Some rq) rd = Return res"
      by (simp add: open_body_def)
    from request_fail_debug_coded [OF coded_newError this]
    obtain e where e: "res = ([], [], None, nil_Reader, [e])"
      "coded (StatusText lib) ErrRequestError
         (networkError \<lparr>body = content raw, statusCode = StatusCode resp\<rparr>) e"
      by blast
    from False raw have "body_failure lib c resp ErrRequestError
            (networkError \<lparr>body = content raw, statusCode = StatusCode resp\<rparr>)"
      unfolding body_failure_def by blast
    with e show ?thesis by blast
  next
    case True
    with assms Inr p obtain ge where
      dbg: "debug c" and re: "read_err raw = Some ge"
      and res: "res = ([], [], None, nil_Reader, [newError (StatusText lib) ErrJsonDecode ge])"
      by (auto simp: open_body_def request_fail_def split: if_splits option.splits)
    from dbg re raw have "body_failure lib c resp ErrJsonDecode ge"
      unfolding body_failure_def by blast
    with res coded_newError [of "StatusText lib" ErrJsonDecode ge]
    show ?thesis by blast
  qed
qed

lemma set_update_0: "e \<in> set (xs[0 := y]) \<Longrightarrow> e = y \<or> e \<in> set xs"
  using set_update_subset_insert [of xs 0 y] by auto

lemma decode_envelope_members:
  assumes "json_Decode lib r = Inr out"
    and "decode_envelope lib c rq rd resp r rr = Return (d, x, rs, rb, errs)"
    and "e \<in> set errs"
  shows "from_envelope lib c e"
proof -
  have "e \<in> set (out_Errors out)
       \<or> debug c \<and> (\<exists>rr' rb'. withRequest_withResponse (hd (out_Errors out)) rq rd resp rr'
                        = Return (e, rb'))"
    using assms(2,3)
    unfolding decode_envelope_def Let_def assms(1) sum.case
    by (auto split: if_splits outcome.splits option.splits dest!: set_update_0)
  with assms(1) show ?thesis
    unfolding from_envelope_def by blast
qed

lemma request_response_origin:
  assumes "request_response lib c rq rd (Result (httpClient c rq0)) = Return (d, x, rs, rb, errs)"
    and "e \<in> set errs"
  shows "from_envelope lib c e
       \<or> (\<exists>code ge. coded (StatusText lib) code ge e \<and> dispatch_failure lib c code ge)"
proof (cases "Result (httpClient c rq0)")
  case (Inl ge)
  with assms(1)
  have "request_fail_debug c (newError (StatusText lib) ErrRequestError ge) (Some rq) rd
          = Return (d, x, rs, rb, errs)"
    by (simp add: request_response_def)
  from request_fail_debug_coded [OF coded_newError this] assms(2)
  have "coded (StatusText lib) ErrRequestError ge e" by auto
  moreover from Inl have "dispatch_failure lib c ErrRequestError ge"
    unfolding dispatch_failure_def by blast
  ultimately show ?thesis by blast
next
  case res: (Inr resp)
  show ?thesis
  proof (cases "open_body lib c rq rd resp")
    case (Inl early)
    with assms(1) res have "open_body lib c rq rd resp = Inl (Return (d, x, rs, rb, errs))"
      by (simp add: request_response_def)
    from open_body_early_origin [OF this] obtain e0 code ge where
      e0: "(d, x, rs, rb, errs) = ([], [], None, nil_Reader, [e0])"
      and co: "coded (StatusText lib) code ge e0"
      and orig: "body_failure lib c resp code ge"
      by blast
    from e0 assms(2) have "e = e0" by simp
    with co have "coded (StatusText lib) code ge e" by simp
    moreover from orig res have "dispatch_failure lib c code ge"
      unfolding dispatch_failure_def by blast
    ultimately show ?thesis by blast
  next
    case (Inr p)
    obtain r rr where p: "p = (r, rr)" by (cases p)
    with assms(1) res Inr
    have de: "decode_envelope lib c rq rd resp r rr = Return (d, x, rs, rb, errs)"
      by (simp add: request_response_def)
    show ?thesis
    proof (cases "json_Decode lib r")
      case (Inl ge)
      from decode_envelope_failed [OF this de] assms(2)
      have "coded (StatusText lib) ErrJsonDecode ge e" by auto
      moreover from Inl have "dispatch_failure lib c ErrJsonDecode ge"
        unfolding dispatch_failure_def by blast
      ultimately show ?thesis by blast
    next
      case (Inr out)
      from decode_envelope_members [OF Inr de assms(2)] show ?thesis by simp
    qed
  qed
qed

lemma request_origin:
  assumes "request lib c q vars opts = Return (d, x, rs, rb, errs)"
    and "e \<in> set errs"
  shows "from_envelope lib c e
       \<or> (\<exists>code ge. coded (StatusText lib) code ge e \<and> request_failure lib c q vars code ge)"
proof (cases "json_Encode lib \<lparr>Query = q, Variables = vars,
              OperationName = (case opts of None \<Rightarrow> [] | Some opts \<Rightarrow> operationName opts)\<rparr>")
  case (Inl ge)
  with assms have "e = newError (StatusText lib) ErrGraphQLEncode ge"
    by (auto simp: request_def request_fail_def)
  with coded_newError [of "StatusText lib" ErrGraphQLEncode ge]
  have "coded (StatusText lib) ErrGraphQLEncode ge e" by simp
  moreover from Inl have "request_failure lib c q vars ErrGraphQLEncode ge"
    unfolding request_failure_def by blast
  ultimately show ?thesis by blast
next
  case enc: (Inr b)
  show ?thesis
  proof (cases "NewRequestWithContext lib ''POST'' (url c) b")
    case (Inl ge')
    with assms(1) enc
    have "request_fail_debug c (newError (StatusText lib) ErrRequestError
            (wrapError ''problem constructing request: '' ge')) None (NewReader b)
          = Return (d, x, rs, rb, errs)"
      by (simp add: request_def)
    from request_fail_debug_coded [OF coded_newError this] assms(2)
    have "coded (StatusText lib) ErrRequestError
            (wrapError ''problem constructing request: '' ge') e" by auto
    moreover from Inl have "request_failure lib c q vars ErrRequestError
            (wrapError ''problem constructing request: '' ge')"
      unfolding request_failure_def by blast
    ultimately show ?thesis by blast
  next
    case nr: (Inr request0)
    from assms(1) obtain rq rd where
      "request_response lib c rq rd (Result (httpClient c (modified_request c request0)))
         = Return (d, x, rs, rb, errs)"
      by (simp add: request_def enc nr Let_def)
    from request_response_origin [OF this assms(2)] show ?thesis
      unfolding request_failure_def by blast
  qed
qed

subsection \<open>Facts about processResponse and do\<close>

lemma processResponse_data_error:
  assumes "data \<noteq> []" and "UnmarshalGraphQL lib data v = (v', Some ge)"
    and "debug c \<longrightarrow> (\<exists>r. resp = Some r) \<and> (\<exists>rd. rb = bytes_Reader_ptr (Some rd))"
  shows "\<exists>we x' rest.
      processResponse lib c v data exts raw resp rb errs
        = Return (v', x', Some (errs @ we # rest))
      \<and> coded (StatusText lib) ErrGraphQLDecode ge we
      \<and> (rest = [] \<or> (\<exists>ge2. rest = [newError (StatusText lib) ErrGraphQLExtensionsDecode ge2]))"
proof -
  note cn = coded_newError [of "StatusText lib" ErrGraphQLDecode ge]
  obtain we where
    first: "(if debug c then
               (case withResponse (newError (StatusText lib) ErrGraphQLDecode ge) resp rb of
                  Panic \<Rightarrow> Panic
                | Return (we, _) \<Rightarrow> Return (v', errs @ [we]))
             else Return (v', errs @ [newError (StatusText lib) ErrGraphQLDecode ge]))
            = Return (v', errs @ [we])"
    and we: "coded (StatusText lib) ErrGraphQLDecode ge we"
  proof (cases "debug c")
    case True
    with assms(3) obtain r rd where rr: "resp = Some r" "rb = bytes_Reader_ptr (Some rd)" by auto
    have "coded (StatusText lib) ErrGraphQLDecode ge
            ((newError (StatusText lib) ErrGraphQLDecode ge)\<lparr>Extensions :=
                  Some [(''code'', AString ErrGraphQLDecode),
                        (''internal'', AMap [(''response'',
                           AMap [(''headers'', AHeader (resp_Header r)),
                                 (''body'', AString (drop (off rd) (buf rd)))])])]\<rparr>)"
      by (simp add: coded_def newError_def)
    with True rr that show ?thesis
      by (simp add: withResponse_newError)
  next
    case False
    with cn that show ?thesis by simp
  qed
  show ?thesis
    using assms(1,2) we
    unfolding processResponse_def
    apply (simp only: length_greater_0_conv if_True prod.case option.case first outcome.case)
    apply (auto split: option.splits prod.splits)
    done
qed

lemma processResponse_general:
  assumes "debug c \<longrightarrow> data = [] \<or> ((\<exists>r. resp = Some r) \<and> (\<exists>rd. rb = bytes_Reader_ptr (Some rd)))"
  shows "\<exists>pre.
      processResponse lib c v data exts raw resp rb errs
        = Return (if data = [] then v else fst (UnmarshalGraphQL lib data v),
                  if raw = [] then None
                  else map_option (\<lambda>x. fst (json_Unmarshal lib raw x)) exts,
                  if errs @ pre @
                       (if raw = [] then []
                        else case exts of
                               None \<Rightarrow> []
                             | Some x \<Rightarrow>
                                 (case snd (json_Unmarshal lib raw x) of
                                    None \<Rightarrow> []
                                  | Some ge \<Rightarrow>
                                      [newError (StatusText lib) ErrGraphQLExtensionsDecode ge])) = []
                  then None
                  else Some (errs @ pre @
                       (if raw = [] then []
                        else case exts of
                               None \<Rightarrow> []
                             | Some x \<Rightarrow>
                                 (case snd (json_Unmarshal lib raw x) of
                                    None \<Rightarrow> []
                                  | Some ge \<Rightarrow>
                                      [newError (StatusText lib) ErrGraphQLExtensionsDecode ge]))))
      \<and> (case (if data = [] then None else snd (UnmarshalGraphQL lib data v)) of
            None \<Rightarrow> pre = []
          | Some ge1 \<Rightarrow> \<exists>we. pre = [we] \<and> coded (StatusText lib) ErrGraphQLDecode ge1 we)"
proof -
  define S1 where "S1 =
     (if length data > 0 then
        (case UnmarshalGraphQL lib data v of
           (v', None) \<Rightarrow> Return (v', errs)
         | (v', Some e) \<Rightarrow>
             if debug c then
               (case withResponse (newError (StatusText lib) ErrGraphQLDecode e) resp rb of
                  Panic \<Rightarrow> Panic
                | Return (we, _) \<Rightarrow> Return (v', errs @ [we]))
             else Return (v', errs @ [newError (StatusText lib) ErrGraphQLDecode e]))
      else Return (v, errs))"
  have "\<exists>pre. S1 = Return (if data = [] then v else fst (UnmarshalGraphQL lib data v), errs @ pre)
      \<and> (case (if data = [] then None else snd (UnmarshalGraphQL lib data v)) of
            None \<Rightarrow> pre = []
          | Some ge1 \<Rightarrow> \<exists>we. pre = [we] \<and> coded (StatusText lib) ErrGraphQLDecode ge1 we)"
  proof (cases "data = []")
    case True
    then show ?thesis by (simp add: S1_def)
  next
    case ne: False
    obtain v' oe where u: "UnmarshalGraphQL lib data v = (v', oe)"
      by (cases "UnmarshalGraphQL lib data v")
    show ?thesis
    proof (cases oe)
      case None
      with ne u show ?thesis by (simp add: S1_def)
    next
      case (Some ge)
      note cn = coded_newError [of "StatusText lib" ErrGraphQLDecode ge]
      show ?thesis
      proof (cases "debug c")
        case True
        with assms ne obtain r rd where rr: "resp = Some r" "rb = bytes_Reader_ptr (Some rd)"
          by auto
        have "coded (StatusText lib) ErrGraphQLDecode ge
            ((newError (StatusText lib) ErrGraphQLDecode ge)\<lparr>Extensions :=
                  Some [(''code'', AString ErrGraphQLDecode),
                        (''internal'', AMap [(''response'',
                           AMap [(''headers'', AHeader (resp_Header r)),
                                 (''body'', AString (drop (off rd) (buf rd)))])])]\<rparr>)"
          by (simp add: coded_def newError_def)
        with True rr ne u Some show ?thesis
          by (simp add: S1_def withResponse_newError)
      next
        case False
        with cn ne u Some show ?thesis by (simp add: S1_def)
      qed
    qed
  qed
  then obtain pre where
    s1: "S1 = Return (if data = [] then v else fst (UnmarshalGraphQL lib data v), errs @ pre)"
    and pre: "(case (if data = [] then None else snd (UnmarshalGraphQL lib data v)) of
            None \<Rightarrow> pre = []
          | Some ge1 \<Rightarrow> \<exists>we. pre = [we] \<and> coded (StatusText lib) ErrGraphQLDecode ge1 we)"
    by blast
  have "processResponse lib c v data exts raw resp rb errs
        = Return (if data = [] then v else fst (UnmarshalGraphQL lib data v),
                  if raw = [] then None
                  else map_option (\<lambda>x. fst (json_Unmarshal lib raw x)) exts,
                  if errs @ pre @
                       (if raw = [] then []
                        else case exts of
                               None \<Rightarrow> []
                             | Some x \<Rightarrow>
                                 (case snd (json_Unmarshal lib raw x) of
                                    None \<Rightarrow> []
                                  | Some ge \<Rightarrow>
                                      [newError (StatusText lib) ErrGraphQLExtensionsDecode ge])) = []
                  then None
                  else Some (errs @ pre @
                       (if raw = [] then []
                        else case exts of
                               None \<Rightarrow> []
                             | Some x \<Rightarrow>
                                 (case snd (json_Unmarshal lib raw x) of
                                    None \<Rightarrow> []
                                  | Some ge \<Rightarrow>
                                      [newError (StatusText lib) ErrGraphQLExtensionsDecode ge]))))"
    unfolding processResponse_def S1_def [symmetric] s1
    by (auto split: option.splits prod.splits)
  with pre show ?thesis by blast
qed



lemma body_failure_code:
  "body_failure lib c resp code ge \<Longrightarrow> code = ErrRequestError \<or> code = ErrJsonDecode"
  unfolding body_failure_def by blast

lemma dispatch_failure_code:
  "dispatch_failure lib c code ge \<Longrightarrow> code = ErrRequestError \<or> code = ErrJsonDecode"
  unfolding dispatch_failure_def using body_failure_code [of lib c _ code ge] by blast

lemma request_failure_code:
  "request_failure lib c q vars code ge
     \<Longrightarrow> code = ErrGraphQLEncode \<or> code = ErrRequestError \<or> code = ErrJsonDecode"
  unfolding request_failure_def using dispatch_failure_code [of lib c code ge] by blast

lemma do_failure_code:
  assumes "do_failure lib c op v vars options code ge"
  shows "code \<in> {''request_error'', ''json_encode_error'', ''json_decode_error'',
                  ''graphql_encode_error'', ''graphql_decode_error'',
                  ''graphql_extensions_decode_error''}"
proof -
  have codes: "{ErrRequestError, ErrJsonEncode, ErrJsonDecode, ErrGraphQLEncode,
                ErrGraphQLDecode, ErrGraphQLExtensionsDecode}
      = {''request_error'', ''json_encode_error'', ''json_decode_error'',
         ''graphql_encode_error'', ''graphql_decode_error'',
         ''graphql_extensions_decode_error''}"
    by (simp only: ErrRequestError_def ErrJsonEncode_def ErrJsonDecode_def ErrGraphQLEncode_def
        ErrGraphQLDecode_def ErrGraphQLExtensionsDecode_def)
  from assms
  have "code = ErrGraphQLEncode \<or> code = ErrRequestError \<or> code = ErrJsonDecode
          \<or> code = ErrGraphQLDecode \<or> code = ErrGraphQLExtensionsDecode"
    unfolding do_failure_def using request_failure_code [of lib c _ vars code ge] by blast
  then have "code \<in> {ErrRequestError, ErrJsonEncode, ErrJsonDecode, ErrGraphQLEncode,
                       ErrGraphQLDecode, ErrGraphQLExtensionsDecode}"
    by blast
  then show ?thesis unfolding codes .
qed

lemma Client_do_origin:
  assumes "Client_do lib c op v vars options = Return (v', x', Some errs)"
    and "e \<in> set errs"
  shows "from_envelope lib c e
       \<or> (\<exists>code ge. coded (StatusText lib) code ge e
            \<and> do_failure lib c op v vars options code ge)"
proof (cases "buildQueryAndOptions lib c op v vars options")
  case (Inl berrs)
  then obtain ge where
    b: "berrs = [newError (StatusText lib) ErrGraphQLEncode ge]"
    and f: "op = queryOperation \<and> constructQuery lib v vars options = Inl ge
          \<or> op = mutationOperation \<and> constructMutation lib v vars options = Inl ge
          \<or> op \<noteq> queryOperation \<and> op \<noteq> mutationOperation
            \<and> ge = errorString (''invalid operation type: '' @ itoa (uint op))"
    by (auto simp: buildQueryAndOptions_def split: sum.splits if_splits)
  from Inl b assms have "e = newError (StatusText lib) ErrGraphQLEncode ge"
    by (auto simp: Client_do_def)
  with coded_newError [of "StatusText lib" ErrGraphQLEncode ge]
  have "coded (StatusText lib) ErrGraphQLEncode ge e" by simp
  moreover from f have "do_failure lib c op v vars options ErrGraphQLEncode ge"
    unfolding do_failure_def by blast
  ultimately show ?thesis by blast
next
  case (Inr qo)
  obtain q oo where qo: "qo = (q, oo)" by (cases qo)
  show ?thesis
  proof (cases "request lib c q vars (Some oo)")
    case Panic
    with Inr qo assms(1) show ?thesis by (simp add: Client_do_def)
  next
    case (Return res)
    obtain d x rs rb rerrs where res: "res = (d, x, rs, rb, rerrs)" by (cases res)
    note req = Return [unfolded res]
    from Inr qo req assms(1)
    have pr: "processResponse lib c v d (extensions oo) x rs rb rerrs
                = Return (v', x', Some errs)"
      by (simp add: Client_do_def)
    have pre: "debug c \<longrightarrow> d = [] \<or> ((\<exists>r. rs = Some r) \<and> (\<exists>rd. rb = bytes_Reader_ptr (Some rd)))"
      using request_data_reader [OF req] by blast
    define post where "post =
      (if x = [] then []
       else case extensions oo of
              None \<Rightarrow> []
            | Some y \<Rightarrow>
                (case snd (json_Unmarshal lib x y) of
                   None \<Rightarrow> []
                 | Some ge \<Rightarrow> [newError (StatusText lib) ErrGraphQLExtensionsDecode ge]))"
    from processResponse_general [OF pre, of lib v "extensions oo" x rerrs]
    obtain pre where
      eq: "processResponse lib c v d (extensions oo) x rs rb rerrs
            = Return (if d = [] then v else fst (UnmarshalGraphQL lib d v),
                      if x = [] then None
                      else map_option (\<lambda>y. fst (json_Unmarshal lib x y)) (extensions oo),
                      if rerrs @ pre @ post = [] then None else Some (rerrs @ pre @ post))"
      and p1: "(case (if d = [] then None else snd (UnmarshalGraphQL lib d v)) of
                  None \<Rightarrow> pre = []
                | Some ge1 \<Rightarrow> \<exists>we. pre = [we] \<and> coded (StatusText lib) ErrGraphQLDecode ge1 we)"
      unfolding post_def by blast
    from eq pr have errs: "errs = rerrs @ pre @ post"
      by (simp split: if_splits)
    have p2: "post = [] \<or> (\<exists>y ge2. x \<noteq> [] \<and> snd (json_Unmarshal lib x y) = Some ge2
                \<and> post = [newError (StatusText lib) ErrGraphQLExtensionsDecode ge2])"
      by (auto simp: post_def split: option.splits)
    from assms(2) errs consider "e \<in> set rerrs" | "e \<in> set pre" | "e \<in> set post" by auto
    then show ?thesis
    proof cases
      case 1
      from request_origin [OF req 1]
      have "from_envelope lib c e
         \<or> (\<exists>code ge. coded (StatusText lib) code ge e \<and> (\<exists>q. request_failure lib c q vars code ge))"
        by blast
      then show ?thesis unfolding do_failure_def by blast
    next
      case 2
      with p1 obtain ge1 where "d \<noteq> []" "snd (UnmarshalGraphQL lib d v) = Some ge1"
        "coded (StatusText lib) ErrGraphQLDecode ge1 e"
        by (auto split: option.splits if_splits)
      moreover from this(1,2) have "do_failure lib c op v vars options ErrGraphQLDecode ge1"
        unfolding do_failure_def by blast
      ultimately show ?thesis by blast
    next
      case 3
      with p2 obtain y ge2 where "x \<noteq> []" "snd (json_Unmarshal lib x y) = Some ge2"
        "e = newError (StatusText lib) ErrGraphQLExtensionsDecode ge2"
        by auto
      with coded_newError [of "StatusText lib" ErrGraphQLExtensionsDecode ge2]
      have "coded (StatusText lib) ErrGraphQLExtensionsDecode ge2 e"
        and "do_failure lib c op v vars options ErrGraphQLExtensionsDecode ge2"
        unfolding do_failure_def by blast+
      then show ?thesis by blast
    qed
  qed
qed

subsection \<open>The examples, evaluated\<close>

lemma example_data_nonempty: "example_data \<noteq> []"
  by (simp add: example_data_def)

lemma bad_data_nonempty: "bad_data \<noteq> []"
  by (simp add: bad_data_def)

lemma bad_data_Unmarshal:
  "example_UnmarshalGraphQL bad_data v
     = (v, Some (errorString ''struct field for id does not exist''))"
  by (simp add: example_UnmarshalGraphQL_def bad_data_def example_data_def quoted_def)

lemma request_bad_data:
  "request (example_lib bad_data_table) (client_on False (plain_response 200 bad_data_envelope))
      q () None
    = Return (bad_data, [], Some (plain_response 200 bad_data_envelope), bytes_Reader_ptr None,
              [server_error ''not found'' None])"
  by (simp add: request_def request_response_def open_body_def decode_envelope_def
      example_lib_def client_on_def answering_def plain_response_def Header_Get_def
      example_Decode_def bad_data_table_def bad_data_nonempty Let_def)


subsection \<open>C1: partial success\<close>

text \<open>
  C1. The claim: for every envelope with a data payload and errors, the pipeline returns
  both the populated output and the errors. The envelope \<open>internal_string_envelope\<close>
  carries data and one error, whose \<^verbatim>\<open>"internal"\<close> extension is a string. Without
  debug, \<^verbatim>\<open>Mutate\<close> returns both. With debug enabled, \<^verbatim>\<open>request\<close> attaches the capture
  to the first error, \<^verbatim>\<open>getInternalExtension\<close> asserts that the \<^verbatim>\<open>"internal"\<close> extension
  is a map, and the call panics: neither the output nor the errors are returned.
\<close>

theorem partial_success_lost_in_debug:
  "Client_Mutate (example_lib internal_string_table)
      (client_on False (plain_response 200 internal_string_envelope)) [] () []
     = Return (''abc123'', None,
         Some [server_error ''boom'' (Some [(''internal'', AString ''details'')])])
   \<and> Client_Mutate (example_lib internal_string_table)
      (client_on True (plain_response 200 internal_string_envelope)) [] () []
     = Panic"
proof (intro conjI)
  let ?lib = "example_lib internal_string_table"
  let ?resp = "plain_response 200 internal_string_envelope"
  have build: "buildQueryAndOptions ?lib c mutationOperation [] () []
                 = Inr (example_mutation, \<lparr>operationName = [], extensions = None\<rparr>)" for c
    by (simp add: buildQueryAndOptions_def example_lib_def mutationOperation_def
        queryOperation_def)
  have plain: "request ?lib (client_on False ?resp) example_mutation ()
                 (Some \<lparr>operationName = [], extensions = None\<rparr>)
     = Return (example_data, [], Some ?resp, bytes_Reader_ptr None,
         [server_error ''boom'' (Some [(''internal'', AString ''details'')])])"
    by (simp add: request_def request_response_def open_body_def decode_envelope_def
        modified_request_def example_lib_def client_on_def answering_def plain_response_def
        Header_Get_def example_Decode_def internal_string_table_def Let_def
        example_data_nonempty)
  have dbg: "request ?lib (client_on True ?resp) example_mutation ()
                 (Some \<lparr>operationName = [], extensions = None\<rparr>) = Panic"
    by (simp add: request_def request_response_def open_body_def decode_envelope_def
        withRequest_withResponse_def withRequest_def getInternalExtension_def
        modified_request_def example_lib_def client_on_def answering_def plain_response_def
        Header_Get_def example_Decode_def internal_string_table_def Let_def
        server_error_def reader_stream_def NewReader_def Seek0_def)
  show "Client_Mutate ?lib (client_on False ?resp) [] () []
     = Return (''abc123'', None,
         Some [server_error ''boom'' (Some [(''internal'', AString ''details'')])])"
    by (simp add: Client_Mutate_def Client_do_def build plain processResponse_def
        example_data_nonempty)
      (simp add: example_lib_def example_UnmarshalGraphQL_def)
  show "Client_Mutate ?lib (client_on True ?resp) [] () [] = Panic"
    by (simp add: Client_Mutate_def Client_do_def build dbg)
qed

text \<open>
  Partial success (the part of C1 that holds). When the decoder yields an envelope with a
  non-empty data payload and the errors \<open>e0 # rest\<close>, and debug is off or the internal
  extension of \<open>e0\<close> is absent or a map, \<^verbatim>\<open>do\<close> returns both: the output is what
  \<^verbatim>\<open>UnmarshalGraphQL\<close> made of the data, and the error collection starts with the
  envelope's errors (the first one possibly with the debug capture attached, its other
  fields unchanged).
\<close>

theorem data_and_errors_both_returned:
  assumes "buildQueryAndOptions lib c op v vars options = Inr (q, oo)"
    and "json_Encode lib \<lparr>Query = q, Variables = vars, OperationName = operationName oo\<rparr> = Inr b"
    and "NewRequestWithContext lib ''POST'' (url c) b = Inr rq0"
    and "Result (httpClient c (modified_request c rq0)) = Inr resp"
    and "StatusCode resp = 200"
    and "(if Header_Get (resp_Header resp) ''Content-Encoding'' = ''gzip''
          then gzip_NewReader lib (Body resp) else Inr (Body resp, Body resp)) = Inr (raw, r)"
    and "debug c \<longrightarrow> read_err raw = None"
    and "json_Decode lib (if debug c then \<lparr>content = content raw, read_err = None\<rparr> else r)
           = Inr out"
    and "out_Data out = Some data" and "data \<noteq> []"
    and "out_Errors out = e0 # rest"
    and "debug c \<longrightarrow> (\<exists>i. getInternalExtension e0 = Return i)"
  shows "\<exists>x' e0' more.
      Client_do lib c op v vars options
        = Return (fst (UnmarshalGraphQL lib data v), x', Some (e0' # rest @ more))
      \<and> Message e0' = Message e0 \<and> Locations e0' = Locations e0
      \<and> Path e0' = Path e0 \<and> err e0' = err e0
      \<and> (\<not> debug c \<longrightarrow> e0' = e0)"
proof -
  have enc: "json_Encode lib \<lparr>Query = q, Variables = vars,
       OperationName = (case Some oo of None \<Rightarrow> [] | Some oo \<Rightarrow> operationName oo)\<rparr> = Inr b"
    using assms(2) by simp
  from request_returns_envelope [OF enc assms(3,4,5,6,7,8,11,12)] assms(9)
  obtain rb e0' where
    req: "request lib c q vars (Some oo)
            = Return (data, case out_Extensions out of Some x \<Rightarrow> x | None \<Rightarrow> [],
                      Some resp, rb, e0' # rest)"
    and e0': "Message e0' = Message e0 \<and> Locations e0' = Locations e0
          \<and> Path e0' = Path e0 \<and> err e0' = err e0 \<and> (\<not> debug c \<longrightarrow> e0' = e0)"
    by auto
  let ?x = "case out_Extensions out of Some x \<Rightarrow> x | None \<Rightarrow> []"
  have pre: "debug c \<longrightarrow> data = [] \<or> ((\<exists>r. Some resp = Some r) \<and> (\<exists>rd. rb = bytes_Reader_ptr (Some rd)))"
    using request_data_reader [OF req assms(10)] by blast
  from processResponse_general [OF pre, of lib v "extensions oo" ?x "e0' # rest"] assms(10)
  obtain x' more where
    "processResponse lib c v data (extensions oo) ?x (Some resp) rb (e0' # rest)
       = Return (fst (UnmarshalGraphQL lib data v), x', Some (e0' # rest @ more))"
    by auto
  with assms(1) req have "Client_do lib c op v vars options
        = Return (fst (UnmarshalGraphQL lib data v), x', Some (e0' # rest @ more))"
    by (simp add: Client_do_def)
  with e0' show ?thesis by blast
qed

theorem data_and_errors_both_returned_witness:
  "\<exists>x' e0' more.
      Client_Mutate (example_lib partial_table)
        (client_on True (plain_response 200 partial_envelope)) [] () []
        = Return (''abc123'', x', Some (e0' # [] @ more))
      \<and> Message e0' = ''boom''"
proof -
  let ?lib = "example_lib partial_table"
  let ?resp = "plain_response 200 partial_envelope"
  let ?c = "client_on True ?resp"
  let ?built = "\<lparr>req_Method = ''POST'', req_URL = ''https://api.trynova.ai/graphql'',
               req_Header = [], req_Body = example_mutation\<rparr>"
  let ?out = "\<lparr>out_Data = Some example_data, out_Extensions = None,
               out_Errors = [server_error ''boom'' None]\<rparr>"
  have h1: "buildQueryAndOptions ?lib ?c mutationOperation [] () []
              = Inr (example_mutation, \<lparr>operationName = [], extensions = None\<rparr>)"
    by (simp add: buildQueryAndOptions_def example_lib_def mutationOperation_def
        queryOperation_def)
  have h2: "json_Encode ?lib \<lparr>Query = example_mutation, Variables = (),
              OperationName = operationName \<lparr>operationName = [], extensions = None :: string option\<rparr>\<rparr>
            = Inr example_mutation"
    by (simp add: example_lib_def)
  have h3: "NewRequestWithContext ?lib ''POST'' (url ?c) example_mutation = Inr ?built"
    by (simp add: example_lib_def client_on_def)
  have h4: "Result (httpClient ?c (modified_request ?c ?built)) = Inr ?resp"
    by (simp add: client_on_def answering_def)
  have h5: "StatusCode ?resp = 200"
    by (simp add: plain_response_def)
  have h6: "(if Header_Get (resp_Header ?resp) ''Content-Encoding'' = ''gzip''
          then gzip_NewReader ?lib (Body ?resp) else Inr (Body ?resp, Body ?resp))
          = Inr (Body ?resp, Body ?resp)"
    by (simp add: plain_response_def Header_Get_def)
  have h7: "debug ?c \<longrightarrow> read_err (Body ?resp) = None"
    by (simp add: plain_response_def)
  have h8: "json_Decode ?lib (if debug ?c
              then \<lparr>content = content (Body ?resp), read_err = None\<rparr> else Body ?resp)
           = Inr ?out"
    by (simp add: client_on_def example_lib_def example_Decode_def partial_table_def
        plain_response_def)
  have h9: "out_Data ?out = Some example_data" by simp
  have h11: "out_Errors ?out = server_error ''boom'' None # []" by simp
  have h12: "debug ?c \<longrightarrow> (\<exists>i. getInternalExtension (server_error ''boom'' None) = Return i)"
    by (simp add: getInternalExtension_def server_error_def)
  from data_and_errors_both_returned
    [OF h1 h2 h3 h4 h5 h6 h7 h8 h9 example_data_nonempty h11 h12]
  obtain x' e0' more where
    "Client_do ?lib ?c mutationOperation [] () []
        = Return (fst (UnmarshalGraphQL ?lib example_data []), x', Some (e0' # [] @ more))"
    "Message e0' = Message (server_error ''boom'' None)"
    by blast
  then have "Client_Mutate ?lib ?c [] () [] = Return (''abc123'', x', Some (e0' # [] @ more))
      \<and> Message e0' = ''boom''"
    by (simp add: Client_Mutate_def example_lib_def example_UnmarshalGraphQL_def
        server_error_def)
  then show ?thesis by blast
qed

text \<open>
  Transport failure (the second part of C1). When \<^verbatim>\<open>Do\<close> returns the error \<open>ge\<close>,
  \<^verbatim>\<open>do\<close> leaves the output untouched and returns exactly one error, with code
  \<^verbatim>\<open>request_error\<close>, that wraps \<open>ge\<close>: with or without debug.
\<close>

theorem transport_failure_returns_error:
  assumes "buildQueryAndOptions lib c op v vars options = Inr (q, oo)"
    and "json_Encode lib \<lparr>Query = q, Variables = vars, OperationName = operationName oo\<rparr> = Inr b"
    and "NewRequestWithContext lib ''POST'' (url c) b = Inr rq0"
    and "Result (httpClient c (modified_request c rq0)) = Inl ge"
  shows "\<exists>e. Client_do lib c op v vars options = Return (v, None, Some [e])
           \<and> coded (StatusText lib) ErrRequestError ge e"
proof -
  let ?d = "httpClient c (modified_request c rq0)"
  let ?rd = "if debug c then Seek0 ((NewReader b)\<lparr>off := ReqOff ?d\<rparr>)
             else (NewReader b)\<lparr>off := ReqOff ?d\<rparr>"
  from request_fail_debug_newError [of c "StatusText lib" ErrRequestError ge "Sent ?d" ?rd]
  obtain e where
    e: "request_fail_debug c (newError (StatusText lib) ErrRequestError ge) (Some (Sent ?d)) ?rd
          = Return ([], [], None, nil_Reader, [e])"
    and c: "coded (StatusText lib) ErrRequestError ge e"
    by blast
  have "request lib c q vars (Some oo) = Return ([], [], None, nil_Reader, [e])"
    using assms(2,3,4) e
    by (simp add: request_def Let_def request_response_def)
  with assms(1) have "Client_do lib c op v vars options = Return (v, None, Some [e])"
    by (simp add: Client_do_def processResponse_def)
  with c show ?thesis by blast
qed

theorem transport_failure_returns_error_witness:
  "\<exists>e. Client_Mutate (example_lib []) example_client [] () [] = Return ([], None, Some [e])
       \<and> coded example_StatusText ErrRequestError (errorString ''connection refused'') e"
proof -
  let ?lib = "example_lib [] :: (string, string, unit, unit) lib"
  let ?built = "\<lparr>req_Method = ''POST'', req_URL = ''https://api.trynova.ai/graphql'',
               req_Header = [], req_Body = example_mutation\<rparr>"
  have h1: "buildQueryAndOptions ?lib example_client mutationOperation [] () []
              = Inr (example_mutation, \<lparr>operationName = [], extensions = None\<rparr>)"
    by (simp add: buildQueryAndOptions_def example_lib_def mutationOperation_def
        queryOperation_def)
  have h2: "json_Encode ?lib \<lparr>Query = example_mutation, Variables = (),
              OperationName = operationName \<lparr>operationName = [], extensions = None :: string option\<rparr>\<rparr>
            = Inr example_mutation"
    by (simp add: example_lib_def)
  have h3: "NewRequestWithContext ?lib ''POST'' (url example_client) example_mutation
              = Inr ?built"
    by (simp add: example_lib_def example_client_def)
  have h4: "Result (httpClient example_client (modified_request example_client ?built))
              = Inl (errorString ''connection refused'')"
    by (simp add: example_client_def down_transport_def)
  from transport_failure_returns_error [OF h1 h2 h3 h4]
  show ?thesis
    by (simp add: Client_Mutate_def example_lib_def)
qed

subsection \<open>C2: a status other than 200\<close>

text \<open>
  C2. The claim: a response whose status is not 2xx gives exactly one request error with
  the status code and the raw body. Take a response with status 500 that declares gzip.
  If its body is not gzip, the gzip
  reader is created, and fails, before the status is looked at: the one error returned is
  a \<^verbatim>\<open>json_decode_error\<close> that carries neither the status nor the body. If its body is
  gzip, the error is a \<^verbatim>\<open>request_error\<close> with the status, but its body is what
  \<^verbatim>\<open>gzip.NewReader\<close> left unread of \<^verbatim>\<open>resp.Body\<close> (nothing, for the stand-in), not the
  body of the response.
\<close>

theorem gzip_precedes_status_check:
  "request (example_lib [])
      (client_on False (gzip_response 500 ''Internal Server Error'')) example_mutation () None
     = Return ([], [], None, nil_Reader,
         [newError example_StatusText ErrJsonDecode
            (wrapError ''problem trying to create gzip reader: ''
               (errorString ''gzip: invalid header''))])
   \<and> request (example_lib [])
      (client_on False (gzip_response 500 (''GZ'' @ ''Internal Server Error'')))
      example_mutation () None
     = Return ([], [], None, nil_Reader,
         [newError example_StatusText ErrRequestError
            (networkError \<lparr>body = [], statusCode = 500\<rparr>)])"
  by (simp add: request_def request_response_def open_body_def request_fail_debug_def
      request_fail_def modified_request_def example_lib_def client_on_def answering_def
      gzip_response_def Header_Get_def example_gzip_def Let_def)

text \<open>
  A response whose status is not 200 (the part of C2 that holds). \<^verbatim>\<open>request\<close> returns
  exactly one error and no data; the result does not depend on the JSON decoder, so the
  body is not decoded as an envelope. If the response does not declare gzip, the error
  has code \<^verbatim>\<open>request_error\<close> and wraps a \<^verbatim>\<open>NetworkError\<close> with the status code and the
  body of the response.
\<close>

theorem non_200_returns_one_error:
  assumes "json_Encode lib \<lparr>Query = q, Variables = vars,
              OperationName = (case opts of None \<Rightarrow> [] | Some oo \<Rightarrow> operationName oo)\<rparr> = Inr b"
    and "NewRequestWithContext lib ''POST'' (url c) b = Inr rq0"
    and "Result (httpClient c (modified_request c rq0)) = Inr resp"
    and "StatusCode resp \<noteq> 200"
  shows "(\<exists>e code ge. request lib c q vars opts = Return ([], [], None, nil_Reader, [e])
            \<and> coded (StatusText lib) code ge e
            \<and> (code = ErrRequestError \<or> code = ErrJsonDecode))
       \<and> request (lib\<lparr>json_Decode := dec\<rparr>) c q vars opts = request lib c q vars opts
       \<and> (Header_Get (resp_Header resp) ''Content-Encoding'' \<noteq> ''gzip'' \<longrightarrow>
            (\<exists>e. request lib c q vars opts = Return ([], [], None, nil_Reader, [e])
               \<and> coded (StatusText lib) ErrRequestError
                    (networkError \<lparr>body = content (Body resp), statusCode = StatusCode resp\<rparr>)
                    e))"
proof -
  let ?d = "httpClient c (modified_request c rq0)"
  let ?rd = "if debug c then Seek0 ((NewReader b)\<lparr>off := ReqOff ?d\<rparr>)
             else (NewReader b)\<lparr>off := ReqOff ?d\<rparr>"
  let ?gz = "if Header_Get (resp_Header resp) ''Content-Encoding'' = ''gzip''
             then gzip_NewReader lib (Body resp) else Inr (Body resp, Body resp)"
  let ?early = "case ?gz of
            Inl e \<Rightarrow> request_fail (newError (StatusText lib) ErrJsonDecode
                       (wrapError ''problem trying to create gzip reader: '' e))
          | Inr (resp_Body, r) \<Rightarrow>
              request_fail_debug c
                (newError (StatusText lib) ErrRequestError
                   (networkError \<lparr>body = content resp_Body, statusCode = StatusCode resp\<rparr>))
                (Some (Sent ?d)) ?rd"
  have req: "request lib c q vars opts = ?early"
    using assms(1,2,3)
    by (simp add: request_def Let_def request_response_def open_body_non_200 [OF assms(4)])
  have req': "request (lib\<lparr>json_Decode := dec\<rparr>) c q vars opts = ?early"
    using assms(1,2,3)
    by (simp add: request_def Let_def request_response_def open_body_non_200 [OF assms(4)]
        split: sum.splits prod.splits)
  have one: "\<exists>e code ge. ?early = Return ([], [], None, nil_Reader, [e])
            \<and> coded (StatusText lib) code ge e
            \<and> (code = ErrRequestError \<or> code = ErrJsonDecode)"
  proof (cases ?gz)
    case (Inl e)
    with coded_newError [of "StatusText lib" ErrJsonDecode
        "wrapError ''problem trying to create gzip reader: '' e"]
    show ?thesis
      by (auto simp: request_fail_def)
  next
    case (Inr p)
    obtain raw r where p: "p = (raw, r)" by (cases p)
    from request_fail_debug_newError [of c "StatusText lib" ErrRequestError
        "networkError \<lparr>body = content raw, statusCode = StatusCode resp\<rparr>" "Sent ?d" ?rd]
    obtain e where
      "request_fail_debug c (newError (StatusText lib) ErrRequestError
          (networkError \<lparr>body = content raw, statusCode = StatusCode resp\<rparr>))
          (Some (Sent ?d)) ?rd = Return ([], [], None, nil_Reader, [e])"
      "coded (StatusText lib) ErrRequestError
          (networkError \<lparr>body = content raw, statusCode = StatusCode resp\<rparr>) e"
      by blast
    with Inr p have "?early = Return ([], [], None, nil_Reader, [e])
        \<and> coded (StatusText lib) ErrRequestError
          (networkError \<lparr>body = content raw, statusCode = StatusCode resp\<rparr>) e
        \<and> (ErrRequestError = ErrRequestError \<or> ErrRequestError = ErrJsonDecode)"
      by simp
    then show ?thesis by blast
  qed
  have plain: "\<exists>e. ?early = Return ([], [], None, nil_Reader, [e])
               \<and> coded (StatusText lib) ErrRequestError
                    (networkError \<lparr>body = content (Body resp), statusCode = StatusCode resp\<rparr>) e"
    if "Header_Get (resp_Header resp) ''Content-Encoding'' \<noteq> ''gzip''"
    using that request_fail_debug_newError [of c "StatusText lib" ErrRequestError
        "networkError \<lparr>body = content (Body resp), statusCode = StatusCode resp\<rparr>" "Sent ?d" ?rd]
    by simp
  show ?thesis
    unfolding req req' using one plain by blast
qed

theorem non_200_returns_one_error_witness:
  "request (example_lib []) (client_on False (plain_response 404 ''no such route''))
      example_mutation () None
     = Return ([], [], None, nil_Reader,
         [newError example_StatusText ErrRequestError
            (networkError \<lparr>body = ''no such route'', statusCode = 404\<rparr>)])
   \<and> (\<exists>e. request (example_lib []) (client_on False (plain_response 404 ''no such route''))
             example_mutation () None
            = Return ([], [], None, nil_Reader, [e])
        \<and> coded example_StatusText ErrRequestError
             (networkError \<lparr>body = ''no such route'', statusCode = 404\<rparr>) e)
   \<and> Message (newError example_StatusText ErrRequestError
                (networkError \<lparr>body = ''no such route'', statusCode = 404\<rparr>))
       = ''404 Not Found''"
proof (intro conjI)
  let ?lib = "example_lib [] :: (string, string, unit, unit) lib"
  let ?resp = "plain_response 404 ''no such route''"
  let ?c = "client_on False ?resp"
  let ?built = "\<lparr>req_Method = ''POST'', req_URL = ''https://api.trynova.ai/graphql'',
               req_Header = [], req_Body = example_mutation\<rparr>"
  show "request ?lib ?c example_mutation () None
     = Return ([], [], None, nil_Reader,
         [newError example_StatusText ErrRequestError
            (networkError \<lparr>body = ''no such route'', statusCode = 404\<rparr>)])"
    by (simp add: request_def request_response_def open_body_def request_fail_debug_def
        request_fail_def modified_request_def example_lib_def client_on_def answering_def
        plain_response_def Header_Get_def Let_def)
  have h1: "json_Encode ?lib \<lparr>Query = example_mutation, Variables = (),
              OperationName = (case None :: string constructOptionsOutput option of
                 None \<Rightarrow> [] | Some oo \<Rightarrow> operationName oo)\<rparr> = Inr example_mutation"
    by (simp add: example_lib_def)
  have h2: "NewRequestWithContext ?lib ''POST'' (url ?c) example_mutation = Inr ?built"
    by (simp add: example_lib_def client_on_def)
  have h3: "Result (httpClient ?c (modified_request ?c ?built)) = Inr ?resp"
    by (simp add: client_on_def answering_def)
  have h4: "StatusCode ?resp \<noteq> 200"
    by (simp add: plain_response_def)
  have h5: "Header_Get (resp_Header ?resp) ''Content-Encoding'' \<noteq> ''gzip''"
    by (simp add: plain_response_def Header_Get_def)
  from non_200_returns_one_error [OF h1 h2 h3 h4, THEN conjunct2, THEN conjunct2,
      rule_format, OF h5]
  show "\<exists>e. request ?lib ?c example_mutation () None = Return ([], [], None, nil_Reader, [e])
        \<and> coded example_StatusText ErrRequestError
             (networkError \<lparr>body = ''no such route'', statusCode = 404\<rparr>) e"
    by (simp add: example_lib_def plain_response_def)
  have "digits 404 = ''404''"
    by (simp add: digits.simps [of 404] digits.simps [of 40] digits.simps [of 4])
  then show "Message (newError example_StatusText ErrRequestError
                (networkError \<lparr>body = ''no such route'', statusCode = 404\<rparr>))
       = ''404 Not Found''"
    by (simp add: newError_def NetworkError_Error_def itoa_def example_StatusText_def)
qed

subsection \<open>C3: debug capture\<close>




subsection \<open>C4: derivations do not touch the base client\<close>

text \<open>
  C4. \<^verbatim>\<open>WithRequestModifier\<close> and \<^verbatim>\<open>WithDebug\<close>, called on a valid client pointer
  \<open>p\<close>, each allocate a new client that has the URL and the transport of the base
  client, and leave every client already in the store as it was. In particular, after
  two debug derivations (with flags \<open>d1\<close> and \<open>d2\<close>) and a modifier derivation from the
  same base, the base client's fields are unchanged, the first derivation still has
  flag \<open>d1\<close> and the second \<open>d2\<close>.
\<close>

theorem derivations_allocate_fresh_clients:
  assumes "p < length s"
  shows "WithDebug_ptr s p dbg = Return (s @ [WithDebug (s ! p) dbg], length s)
    \<and> WithRequestModifier_ptr s p f = Return (s @ [WithRequestModifier (s ! p) f], length s)
    \<and> url (WithDebug (s ! p) dbg) = url (s ! p)
    \<and> httpClient (WithDebug (s ! p) dbg) = httpClient (s ! p)
    \<and> debug (WithDebug (s ! p) dbg) = dbg
    \<and> url (WithRequestModifier (s ! p) f) = url (s ! p)
    \<and> httpClient (WithRequestModifier (s ! p) f) = httpClient (s ! p)
    \<and> requestModifier (WithRequestModifier (s ! p) f) = f
    \<and> (\<exists>s1 p1 s2 p2 s3 p3.
          WithDebug_ptr s p d1 = Return (s1, p1)
        \<and> WithDebug_ptr s1 p d2 = Return (s2, p2)
        \<and> WithRequestModifier_ptr s2 p f = Return (s3, p3)
        \<and> distinct [p, p1, p2, p3]
        \<and> take (length s) s3 = s
        \<and> s3 ! p = s ! p
        \<and> debug (s3 ! p1) = d1 \<and> debug (s3 ! p2) = d2
        \<and> url (s3 ! p1) = url (s ! p) \<and> url (s3 ! p2) = url (s ! p)
        \<and> url (s3 ! p3) = url (s ! p)
        \<and> httpClient (s3 ! p1) = httpClient (s ! p)
        \<and> httpClient (s3 ! p2) = httpClient (s ! p)
        \<and> httpClient (s3 ! p3) = httpClient (s ! p))"
proof -
  have a: "WithDebug_ptr s p d1 = Return (s @ [WithDebug (s ! p) d1], length s)"
    using assms by (simp add: WithDebug_ptr_def)
  have b: "WithDebug_ptr (s @ [WithDebug (s ! p) d1]) p d2
             = Return (s @ [WithDebug (s ! p) d1, WithDebug (s ! p) d2], Suc (length s))"
    using assms by (simp add: WithDebug_ptr_def nth_append)
  have c: "WithRequestModifier_ptr (s @ [WithDebug (s ! p) d1, WithDebug (s ! p) d2]) p f
             = Return (s @ [WithDebug (s ! p) d1, WithDebug (s ! p) d2,
                            WithRequestModifier (s ! p) f], Suc (Suc (length s)))"
    using assms by (simp add: WithRequestModifier_ptr_def nth_append)
  have d: "(s @ [WithDebug (s ! p) d1, WithDebug (s ! p) d2,
                 WithRequestModifier (s ! p) f]) ! p = s ! p"
    using assms by (simp add: nth_append)
  have e: "(s @ [x, y, z]) ! length s = x" "(s @ [x, y, z]) ! Suc (length s) = y"
    "(s @ [x, y, z]) ! Suc (Suc (length s)) = z" for x y z :: Client
    by (simp_all add: nth_append)
  have scenario: "\<exists>s1 p1 s2 p2 s3 p3.
          WithDebug_ptr s p d1 = Return (s1, p1)
        \<and> WithDebug_ptr s1 p d2 = Return (s2, p2)
        \<and> WithRequestModifier_ptr s2 p f = Return (s3, p3)
        \<and> distinct [p, p1, p2, p3]
        \<and> take (length s) s3 = s
        \<and> s3 ! p = s ! p
        \<and> debug (s3 ! p1) = d1 \<and> debug (s3 ! p2) = d2
        \<and> url (s3 ! p1) = url (s ! p) \<and> url (s3 ! p2) = url (s ! p)
        \<and> url (s3 ! p3) = url (s ! p)
        \<and> httpClient (s3 ! p1) = httpClient (s ! p)
        \<and> httpClient (s3 ! p2) = httpClient (s ! p)
        \<and> httpClient (s3 ! p3) = httpClient (s ! p)"
    apply (rule exI [of _ "s @ [WithDebug (s ! p) d1]"])
    apply (rule exI [of _ "length s"])
    apply (rule exI [of _ "s @ [WithDebug (s ! p) d1, WithDebug (s ! p) d2]"])
    apply (rule exI [of _ "Suc (length s)"])
    apply (rule exI [of _ "s @ [WithDebug (s ! p) d1, WithDebug (s ! p) d2,
                                WithRequestModifier (s ! p) f]"])
    apply (rule exI [of _ "Suc (Suc (length s))"])
    using assms
    apply (simp add: a b c d e)
    apply (simp add: WithDebug_def WithRequestModifier_def)
    done
  show ?thesis
    using assms scenario
    by (simp add: WithDebug_ptr_def WithRequestModifier_ptr_def WithDebug_def
        WithRequestModifier_def)
qed

theorem derivations_allocate_fresh_clients_witness:
  "(0::nat) < length [example_client]
   \<and> \<not> debug example_client
   \<and> WithDebug_ptr [example_client] 0 True
       = Return ([example_client, WithDebug example_client True], 1)
   \<and> debug (WithDebug example_client True)
   \<and> url (WithDebug example_client True) = ''https://api.trynova.ai/graphql''"
  using derivations_allocate_fresh_clients [of 0 "[example_client]" True None True False]
  by (simp add: example_client_def)

subsection \<open>C5: gzip\<close>

text \<open>
  C5. The claim: a response that declares gzip is decoded to the same result as the
  uncompressed payload. With debug off it is (second equation). With debug enabled, the
  copy of the body kept for debugging is read from
  \<^verbatim>\<open>resp.Body\<close>, not from the gzip reader, and the envelope is decoded from that copy:
  the gzip form of the example envelope gives a decode error where the plain form gives
  the data.
\<close>

theorem gzip_not_decompressed_in_debug:
  "request (example_lib example_table)
      (client_on True (plain_response 200 example_envelope)) example_mutation () None
     = Return (example_data, [], Some (plain_response 200 example_envelope),
         bytes_Reader_ptr (Some \<lparr>buf = example_envelope, off = 0\<rparr>), [])
   \<and> request (example_lib example_table)
      (client_on False (gzip_response 200 (''GZ'' @ example_envelope))) example_mutation () None
     = Return (example_data, [], Some (gzip_response 200 (''GZ'' @ example_envelope)),
         bytes_Reader_ptr None, [])
   \<and> request (example_lib example_table)
      (client_on True (gzip_response 200 (''GZ'' @ example_envelope))) example_mutation () None
     = Return ([], [], None, nil_Reader,
         [\<lparr>Message = ''invalid character looking for beginning of value'',
           Extensions = Some
             [(''code'', AString ErrJsonDecode),
              (''internal'', AMap
                 [(''request'', AMap
                     [(''headers'', AHeader [(''Content-Type'', [''application/json''])]),
                      (''body'', AString example_mutation)]),
                  (''response'', AMap
                     [(''headers'', AHeader [(''Content-Type'', [''application/json'']),
                                             (''Content-Encoding'', [''gzip''])]),
                      (''body'', AString [])])])],
           Locations = [], Path = [],
           err = Some (errorString ''invalid character looking for beginning of value'')\<rparr>])"
proof (intro conjI)
  show "request (example_lib example_table)
      (client_on True (plain_response 200 example_envelope)) example_mutation () None
     = Return (example_data, [], Some (plain_response 200 example_envelope),
         bytes_Reader_ptr (Some \<lparr>buf = example_envelope, off = 0\<rparr>), [])"
    by (simp add: request_def request_response_def open_body_def decode_envelope_def
        modified_request_def example_lib_def client_on_def answering_def plain_response_def
        Header_Get_def example_Decode_def example_table_def Let_def example_data_nonempty
        reader_stream_def NewReader_def Seek0_def)
  show "request (example_lib example_table)
      (client_on False (gzip_response 200 (''GZ'' @ example_envelope))) example_mutation () None
     = Return (example_data, [], Some (gzip_response 200 (''GZ'' @ example_envelope)),
         bytes_Reader_ptr None, [])"
    by (simp add: request_def request_response_def open_body_def decode_envelope_def
        modified_request_def example_lib_def client_on_def answering_def gzip_response_def
        Header_Get_def example_gzip_def example_Decode_def example_table_def Let_def
        example_data_nonempty)
  have empty: "example_envelope \<noteq> []"
    by (simp add: example_envelope_def)
  show "request (example_lib example_table)
      (client_on True (gzip_response 200 (''GZ'' @ example_envelope))) example_mutation () None
     = Return ([], [], None, nil_Reader,
         [\<lparr>Message = ''invalid character looking for beginning of value'',
           Extensions = Some
             [(''code'', AString ErrJsonDecode),
              (''internal'', AMap
                 [(''request'', AMap
                     [(''headers'', AHeader [(''Content-Type'', [''application/json''])]),
                      (''body'', AString example_mutation)]),
                  (''response'', AMap
                     [(''headers'', AHeader [(''Content-Type'', [''application/json'']),
                                             (''Content-Encoding'', [''gzip''])]),
                      (''body'', AString [])])])],
           Locations = [], Path = [],
           err = Some (errorString ''invalid character looking for beginning of value'')\<rparr>])"
    using empty [symmetric]
    by (simp add: request_def request_response_def open_body_def decode_envelope_def
        request_fail_def withRequest_withResponse_def withRequest_def withResponse_def
        getInternalExtension_def ReadAll_bytes_def newError_def
        modified_request_def Header_Add_def example_lib_def client_on_def answering_def
        gzip_response_def Header_Get_def example_gzip_def example_Decode_def
        example_table_def Let_def reader_stream_def NewReader_def Seek0_def)
qed

text \<open>
  Gzip without debug (the part of C5 that holds). With debug off, a 200 response that
  declares gzip gives the same data, extensions and errors as the response whose body is
  the decompressed stream and that declares no gzip; and a response that declares no gzip
  is decoded from its body as it is.
\<close>

theorem gzip_transparent_without_debug:
  assumes "\<not> debug c" and "StatusCode resp = 200"
  shows "(Header_Get (resp_Header resp) ''Content-Encoding'' = ''gzip'' \<longrightarrow>
          gzip_NewReader lib (Body resp) = Inr (rest, plain) \<longrightarrow>
          Header_Get h ''Content-Encoding'' \<noteq> ''gzip'' \<longrightarrow>
          returned_payload (request_response lib c rq rd (Inr resp))
            = returned_payload
                (request_response lib c rq rd (Inr (resp\<lparr>resp_Header := h, Body := plain\<rparr>))))
       \<and> (Header_Get (resp_Header resp) ''Content-Encoding'' \<noteq> ''gzip'' \<longrightarrow>
          request_response lib c rq rd (Inr resp)
            = decode_envelope lib c rq rd resp (Body resp) None)"
proof (intro conjI impI)
  assume gz: "Header_Get (resp_Header resp) ''Content-Encoding'' = ''gzip''"
    and rd: "gzip_NewReader lib (Body resp) = Inr (rest, plain)"
    and h: "Header_Get h ''Content-Encoding'' \<noteq> ''gzip''"
  have a: "request_response lib c rq rd (Inr resp)
             = decode_envelope lib c rq rd resp plain None"
    using assms gz rd by (simp add: request_response_def open_body_def)
  have b: "request_response lib c rq rd (Inr (resp\<lparr>resp_Header := h, Body := plain\<rparr>))
             = decode_envelope lib c rq rd (resp\<lparr>resp_Header := h, Body := plain\<rparr>) plain None"
    using assms h by (simp add: request_response_def open_body_def)
  show "returned_payload (request_response lib c rq rd (Inr resp))
            = returned_payload
                (request_response lib c rq rd (Inr (resp\<lparr>resp_Header := h, Body := plain\<rparr>)))"
    unfolding a b using assms(1)
    by (cases "json_Decode lib plain")
      (simp_all add: decode_envelope_def returned_payload_def request_fail_def Let_def)
next
  assume "Header_Get (resp_Header resp) ''Content-Encoding'' \<noteq> ''gzip''"
  with assms show "request_response lib c rq rd (Inr resp)
            = decode_envelope lib c rq rd resp (Body resp) None"
    by (simp add: request_response_def open_body_def)
qed

theorem gzip_transparent_without_debug_witness:
  "returned_payload
     (request_response (example_lib example_table)
        (client_on False (gzip_response 200 (''GZ'' @ example_envelope)))
        \<lparr>req_Method = ''POST'', req_URL = ''https://api.trynova.ai/graphql'',
         req_Header = [(''Content-Type'', [''application/json''])],
         req_Body = example_mutation\<rparr>
        (NewReader example_mutation)
        (Inr (gzip_response 200 (''GZ'' @ example_envelope))))
   = returned_payload
     (request_response (example_lib example_table)
        (client_on False (gzip_response 200 (''GZ'' @ example_envelope)))
        \<lparr>req_Method = ''POST'', req_URL = ''https://api.trynova.ai/graphql'',
         req_Header = [(''Content-Type'', [''application/json''])],
         req_Body = example_mutation\<rparr>
        (NewReader example_mutation)
        (Inr (plain_response 200 example_envelope)))
   \<and> returned_payload
     (request_response (example_lib example_table)
        (client_on False (gzip_response 200 (''GZ'' @ example_envelope)))
        \<lparr>req_Method = ''POST'', req_URL = ''https://api.trynova.ai/graphql'',
         req_Header = [(''Content-Type'', [''application/json''])],
         req_Body = example_mutation\<rparr>
        (NewReader example_mutation)
        (Inr (plain_response 200 example_envelope)))
   = Return (example_data, [], [])"
proof (intro conjI)
  let ?lib = "example_lib example_table"
  let ?gz = "gzip_response 200 (''GZ'' @ example_envelope)"
  let ?c = "client_on False ?gz"
  let ?sent = "\<lparr>req_Method = ''POST'', req_URL = ''https://api.trynova.ai/graphql'',
         req_Header = [(''Content-Type'', [''application/json''])],
         req_Body = example_mutation\<rparr>"
  have off: "\<not> debug ?c" by (simp add: client_on_def)
  have st: "StatusCode ?gz = 200" by (simp add: gzip_response_def)
  have g: "Header_Get (resp_Header ?gz) ''Content-Encoding'' = ''gzip''"
    by (simp add: gzip_response_def Header_Get_def)
  have rd: "gzip_NewReader ?lib (Body ?gz)
              = Inr (\<lparr>content = [], read_err = None\<rparr>,
                     \<lparr>content = example_envelope, read_err = None\<rparr>)"
    by (simp add: example_lib_def example_gzip_def gzip_response_def)
  have h: "Header_Get [(''Content-Type'', [''application/json''])] ''Content-Encoding''
             \<noteq> ''gzip''"
    by (simp add: Header_Get_def)
  have same: "?gz\<lparr>resp_Header := [(''Content-Type'', [''application/json''])],
                  Body := \<lparr>content = example_envelope, read_err = None\<rparr>\<rparr>
              = plain_response 200 example_envelope"
    by (simp add: gzip_response_def plain_response_def)
  from gzip_transparent_without_debug [OF off st, THEN conjunct1, rule_format, OF g rd h,
      of ?sent "NewReader example_mutation"]
  show "returned_payload (request_response ?lib ?c ?sent (NewReader example_mutation) (Inr ?gz))
   = returned_payload (request_response ?lib ?c ?sent (NewReader example_mutation)
        (Inr (plain_response 200 example_envelope)))"
    by (simp only: same)
  show "returned_payload (request_response ?lib ?c ?sent (NewReader example_mutation)
        (Inr (plain_response 200 example_envelope)))
   = Return (example_data, [], [])"
    by (simp add: returned_payload_def request_response_def open_body_def decode_envelope_def
        example_lib_def client_on_def plain_response_def Header_Get_def example_Decode_def
        example_table_def Let_def example_data_nonempty)
qed

subsection \<open>C6: a data decode error is appended\<close>

text \<open>
  C6. When \<^verbatim>\<open>request\<close> has returned a non-empty data payload and
  \<^verbatim>\<open>UnmarshalGraphQL\<close> fails on it with the error \<open>ge\<close>, \<^verbatim>\<open>processResponse\<close> returns
  the errors \<^verbatim>\<open>request\<close> collected, all of them and in their order, followed by a new
  error with code \<^verbatim>\<open>graphql_decode_error\<close> that wraps \<open>ge\<close> (and, last, the extensions
  decode error if there is one).
\<close>

theorem processResponse_appends_decode_error:
  assumes "request lib c q vars opts = Return (data, extData, resp, respBuf, errs)"
    and "data \<noteq> []"
    and "UnmarshalGraphQL lib data v = (v', Some ge)"
  shows "\<exists>we x' rest.
      processResponse lib c v data exts extData resp respBuf errs
        = Return (v', x', Some (errs @ we # rest))
      \<and> coded (StatusText lib) ErrGraphQLDecode ge we
      \<and> (rest = [] \<or> (\<exists>ge2. rest = [newError (StatusText lib) ErrGraphQLExtensionsDecode ge2]))"
  using processResponse_data_error [OF assms(2,3)] request_data_reader [OF assms(1,2)]
  by blast

theorem processResponse_appends_decode_error_witness:
  "request (example_lib bad_data_table) (client_on False (plain_response 200 bad_data_envelope))
      [] () None
    = Return (bad_data, [], Some (plain_response 200 bad_data_envelope), bytes_Reader_ptr None,
              [server_error ''not found'' None])
   \<and> bad_data \<noteq> []
   \<and> UnmarshalGraphQL (example_lib bad_data_table) bad_data []
       = ([], Some (errorString ''struct field for id does not exist''))
   \<and> processResponse (example_lib bad_data_table)
        (client_on False (plain_response 200 bad_data_envelope)) [] bad_data None []
        (Some (plain_response 200 bad_data_envelope)) (bytes_Reader_ptr None)
        [server_error ''not found'' None]
      = Return ([], None,
          Some [server_error ''not found'' None,
                newError example_StatusText ErrGraphQLDecode
                  (errorString ''struct field for id does not exist'')])"
proof -
  have r: "request (example_lib bad_data_table)
      (client_on False (plain_response 200 bad_data_envelope)) [] () None
    = Return (bad_data, [], Some (plain_response 200 bad_data_envelope), bytes_Reader_ptr None,
              [server_error ''not found'' None])"
    by (rule request_bad_data)
  have u: "UnmarshalGraphQL (example_lib bad_data_table) bad_data []
       = ([], Some (errorString ''struct field for id does not exist''))"
    by (simp add: example_lib_def bad_data_Unmarshal)
  from processResponse_appends_decode_error [OF r bad_data_nonempty u, of None]
  obtain we x' rest where
    p: "processResponse (example_lib bad_data_table)
        (client_on False (plain_response 200 bad_data_envelope)) [] bad_data None []
        (Some (plain_response 200 bad_data_envelope)) (bytes_Reader_ptr None)
        [server_error ''not found'' None]
      = Return ([], x', Some ([server_error ''not found'' None] @ we # rest))"
    by blast
  have "processResponse (example_lib bad_data_table)
        (client_on False (plain_response 200 bad_data_envelope)) [] bad_data None []
        (Some (plain_response 200 bad_data_envelope)) (bytes_Reader_ptr None)
        [server_error ''not found'' None]
      = Return ([], None,
          Some [server_error ''not found'' None,
                newError example_StatusText ErrGraphQLDecode
                  (errorString ''struct field for id does not exist'')])"
    using p
    by (simp add: processResponse_def bad_data_nonempty example_lib_def bad_data_Unmarshal
        client_on_def)
  with r u bad_data_nonempty show ?thesis by simp
qed

subsection \<open>C7: extensions are decoded separately\<close>

text \<open>
  C7. When \<^verbatim>\<open>request\<close> has returned raw extensions, the caller bound a target \<open>x\<close>
  and \<^verbatim>\<open>json.Unmarshal\<close> fails on them with \<open>ge\<close>: the error appended last has the
  code \<^verbatim>\<open>graphql_extensions_decode_error\<close>, which differs from the data decode code;
  the typed output is still what \<^verbatim>\<open>UnmarshalGraphQL\<close> made of the data payload; and the
  errors before it are those of \<^verbatim>\<open>request\<close>, then the data decode error if any.
\<close>

theorem extensions_decode_error_is_separate:
  assumes "request lib c q vars opts = Return (data, extData, resp, respBuf, errs)"
    and "extData \<noteq> []"
    and "json_Unmarshal lib extData x = (x', Some ge)"
  shows "\<exists>pre.
      processResponse lib c v data (Some x) extData resp respBuf errs
        = Return (if data = [] then v else fst (UnmarshalGraphQL lib data v),
                  Some x',
                  Some (errs @ pre @ [newError (StatusText lib) ErrGraphQLExtensionsDecode ge]))
      \<and> (case (if data = [] then None else snd (UnmarshalGraphQL lib data v)) of
            None \<Rightarrow> pre = []
          | Some ge1 \<Rightarrow> \<exists>we. pre = [we] \<and> coded (StatusText lib) ErrGraphQLDecode ge1 we)
      \<and> ErrGraphQLExtensionsDecode \<noteq> ErrGraphQLDecode"
proof -
  have pre: "debug c \<longrightarrow> data = [] \<or> ((\<exists>r. resp = Some r) \<and> (\<exists>rd. respBuf = bytes_Reader_ptr (Some rd)))"
    using request_data_reader [OF assms(1)] by blast
  from processResponse_general [OF pre, of lib v "Some x" extData errs] assms(2,3)
  show ?thesis
    by (simp add: ErrGraphQLExtensionsDecode_def ErrGraphQLDecode_def)
qed

theorem extensions_decode_error_is_separate_witness:
  "request (example_lib bad_extensions_table)
      (client_on True (plain_response 200 bad_extensions_envelope)) [] () None
    = Return (example_data, ''[1]'', Some (plain_response 200 bad_extensions_envelope),
              bytes_Reader_ptr (Some (NewReader bad_extensions_envelope)), [])
   \<and> ''[1]'' \<noteq> []
   \<and> json_Unmarshal (example_lib bad_extensions_table) ''[1]'' ''{}''
       = (''{}'', Some (errorString ''json: cannot unmarshal array into Go value''))
   \<and> processResponse (example_lib bad_extensions_table)
        (client_on True (plain_response 200 bad_extensions_envelope)) [] example_data
        (Some ''{}'') ''[1]''
        (Some (plain_response 200 bad_extensions_envelope))
        (bytes_Reader_ptr (Some (NewReader bad_extensions_envelope))) []
      = Return (''abc123'', Some ''{}'',
          Some [newError example_StatusText ErrGraphQLExtensionsDecode
                  (errorString ''json: cannot unmarshal array into Go value'')])"
proof -
  have r: "request (example_lib bad_extensions_table)
      (client_on True (plain_response 200 bad_extensions_envelope)) [] () None
    = Return (example_data, ''[1]'', Some (plain_response 200 bad_extensions_envelope),
              bytes_Reader_ptr (Some (NewReader bad_extensions_envelope)), [])"
    by (simp add: request_def request_response_def open_body_def decode_envelope_def
      example_lib_def client_on_def answering_def plain_response_def Header_Get_def
      example_Decode_def bad_extensions_table_def example_data_nonempty Let_def
      reader_stream_def NewReader_def Seek0_def)
  have n: "''[1]'' \<noteq> []" by simp
  have u: "json_Unmarshal (example_lib bad_extensions_table) ''[1]'' ''{}''
       = (''{}'', Some (errorString ''json: cannot unmarshal array into Go value''))"
    by (simp add: example_lib_def example_Unmarshal_def)
  from extensions_decode_error_is_separate [OF r n u, of "[]"]
  have "processResponse (example_lib bad_extensions_table)
        (client_on True (plain_response 200 bad_extensions_envelope)) [] example_data
        (Some ''{}'') ''[1]''
        (Some (plain_response 200 bad_extensions_envelope))
        (bytes_Reader_ptr (Some (NewReader bad_extensions_envelope))) []
      = Return (''abc123'', Some ''{}'',
          Some [newError example_StatusText ErrGraphQLExtensionsDecode
                  (errorString ''json: cannot unmarshal array into Go value'')])"
    by (simp add: example_data_nonempty example_lib_def example_UnmarshalGraphQL_def)
  with r n u show ?thesis by simp
qed

subsection \<open>C8: an envelope with data only\<close>




subsection \<open>C9: what the derivations copy\<close>

text \<open>
  C9. The client returned by \<^verbatim>\<open>WithRequestModifier\<close> has debug off, whatever the base
  client's flag was; the client returned by \<^verbatim>\<open>WithDebug\<close> keeps the base client's request
  modifier. So a request modifier derived after debug was enabled gives a client with
  debug off.
\<close>

theorem WithRequestModifier_resets_debug:
  "debug (WithRequestModifier c f) = False
   \<and> requestModifier (WithDebug c dbg) = requestModifier c
   \<and> debug (WithRequestModifier (WithDebug c True) f) = False
   \<and> requestModifier (WithRequestModifier (WithDebug c True) f) = f"
  by (simp add: WithRequestModifier_def WithDebug_def)

subsection \<open>C10: the errors the pipeline builds\<close>

text \<open>
  C10. Every error \<open>e\<close> of a collection that \<^verbatim>\<open>Client.do\<close> returns is an error of the
  decoded envelope (as decoded or, in debug mode, with the request and the response
  attached), or it was built by the pipeline after a failure. In the second case there is
  the Go error \<open>ge\<close> of that failure: \<open>e\<close> has a non-nil \<^verbatim>\<open>Extensions\<close> map that binds
  \<^verbatim>\<open>"code"\<close> to one of the six classification strings, \<open>e\<close> wraps \<open>ge\<close>, the message of
  \<open>e\<close> is the message of \<open>ge\<close>, and \<open>ge\<close> and the code are those of the failure:
  \<^item> \<^verbatim>\<open>graphql_encode_error\<close>: the error of \<open>constructQuery\<close> or \<open>constructMutation\<close>, the
    error for an invalid operation type, or the error of the JSON encoder;
  \<^item> \<^verbatim>\<open>request_error\<close>: the error of \<^verbatim>\<open>http.NewRequestWithContext\<close> wrapped by
    \<^verbatim>\<open>fmt.Errorf("problem constructing request: %w", err)\<close>, the error of the transport,
    or, for a status other than 200, the \<^verbatim>\<open>NetworkError\<close> with that status;
  \<^item> \<^verbatim>\<open>json_decode_error\<close>: the error of \<^verbatim>\<open>gzip.NewReader\<close> wrapped by
    \<^verbatim>\<open>fmt.Errorf("problem trying to create gzip reader: %w", err)\<close>, in debug mode the
    error of reading the body, or the error of the JSON decoder;
  \<^item> \<^verbatim>\<open>graphql_decode_error\<close>: the error of \<^verbatim>\<open>UnmarshalGraphQL\<close> on the data;
  \<^item> \<^verbatim>\<open>graphql_extensions_decode_error\<close>: the error of \<^verbatim>\<open>json.Unmarshal\<close> on the
    extensions.

  The code \<^verbatim>\<open>json_encode_error\<close> is given to no error. The message of a wrapped error is
  the prefix followed by the message of the error it wraps.
\<close>

theorem pipeline_errors_are_coded:
  assumes "Client_do lib c op v vars options = Return (v', x', Some errs)"
    and "e \<in> set errs"
  shows "(\<exists>r out. json_Decode lib r = Inr out
        \<and> (e \<in> set (out_Errors out)
           \<or> debug c \<and> (\<exists>rq rd resp rr rb.
                 withRequest_withResponse (hd (out_Errors out)) rq rd resp rr = Return (e, rb))))
   \<or> (\<exists>code ge.
         ((\<exists>m. Extensions e = Some m \<and> map_of m ''code'' = Some (AString code))
          \<and> err e = Some ge \<and> Message e = error_Error (StatusText lib) ge)
       \<and> code \<in> {''request_error'', ''json_encode_error'', ''json_decode_error'',
                   ''graphql_encode_error'', ''graphql_decode_error'',
                   ''graphql_extensions_decode_error''}
       \<and> (code = ErrGraphQLEncode
            \<and> (op = queryOperation \<and> constructQuery lib v vars options = Inl ge
               \<or> op = mutationOperation \<and> constructMutation lib v vars options = Inl ge
               \<or> op \<noteq> queryOperation \<and> op \<noteq> mutationOperation
                 \<and> ge = errorString (''invalid operation type: '' @ itoa (uint op)))
          \<or> (\<exists>q. code = ErrGraphQLEncode
                 \<and> (\<exists>n. json_Encode lib \<lparr>Query = q, Variables = vars, OperationName = n\<rparr>
                           = Inl ge)
               \<or> code = ErrRequestError
                 \<and> (\<exists>b ge'. NewRequestWithContext lib ''POST'' (url c) b = Inl ge'
                       \<and> ge = wrapError ''problem constructing request: '' ge')
               \<or> code = ErrRequestError \<and> (\<exists>rq. Result (httpClient c rq) = Inl ge)
               \<or> (\<exists>rq resp. Result (httpClient c rq) = Inr resp
                    \<and> (code = ErrJsonDecode
                         \<and> (\<exists>ge'. gzip_NewReader lib (Body resp) = Inl ge'
                               \<and> ge = wrapError ''problem trying to create gzip reader: '' ge')
                       \<or> (\<exists>raw. (raw = Body resp
                                  \<or> (\<exists>r. gzip_NewReader lib (Body resp) = Inr (raw, r)))
                            \<and> (code = ErrRequestError \<and> StatusCode resp \<noteq> 200
                                 \<and> ge = networkError
                                     \<lparr>body = content raw, statusCode = StatusCode resp\<rparr>
                               \<or> code = ErrJsonDecode \<and> debug c \<and> read_err raw = Some ge))))
               \<or> code = ErrJsonDecode \<and> (\<exists>r. json_Decode lib r = Inl ge))
          \<or> code = ErrGraphQLDecode
            \<and> (\<exists>d. d \<noteq> [] \<and> snd (UnmarshalGraphQL lib d v) = Some ge)
          \<or> code = ErrGraphQLExtensionsDecode
            \<and> (\<exists>x y. x \<noteq> [] \<and> snd (json_Unmarshal lib x y) = Some ge)))"
proof -
  from Client_do_origin [OF assms]
  consider (env) "from_envelope lib c e"
    | (built) code ge where "coded (StatusText lib) code ge e"
        "do_failure lib c op v vars options code ge"
    by blast
  then have "from_envelope lib c e
       \<or> (\<exists>code ge. coded (StatusText lib) code ge e
            \<and> code \<in> {''request_error'', ''json_encode_error'', ''json_decode_error'',
                   ''graphql_encode_error'', ''graphql_decode_error'',
                   ''graphql_extensions_decode_error''}
            \<and> do_failure lib c op v vars options code ge)"
  proof cases
    case env
    then show ?thesis by (rule disjI1)
  next
    case built
    show ?thesis
      by (rule disjI2, rule exI [of _ code], rule exI [of _ ge], intro conjI)
        (rule built(1), rule do_failure_code [OF built(2)], rule built(2))
  qed
  then show ?thesis
    unfolding from_envelope_def coded_def do_failure_def request_failure_def
      dispatch_failure_def body_failure_def .
qed

theorem pipeline_errors_are_coded_witness:
  "Client_do (example_lib []) example_client mutationOperation [] () []
     = Return ([], None,
         Some [newError example_StatusText ErrRequestError (errorString ''connection refused'')])
   \<and> ((\<exists>r out. json_Decode (example_lib []) r = Inr out
        \<and> ((newError example_StatusText ErrRequestError (errorString ''connection refused'')) \<in> set (out_Errors out)
           \<or> debug example_client \<and> (\<exists>rq rd resp rr rb.
                 withRequest_withResponse (hd (out_Errors out)) rq rd resp rr = Return ((newError example_StatusText ErrRequestError (errorString ''connection refused'')), rb))))
   \<or> (\<exists>code ge.
         ((\<exists>m. Extensions (newError example_StatusText ErrRequestError (errorString ''connection refused'')) = Some m \<and> map_of m ''code'' = Some (AString code))
          \<and> err (newError example_StatusText ErrRequestError (errorString ''connection refused'')) = Some ge \<and> Message (newError example_StatusText ErrRequestError (errorString ''connection refused'')) = error_Error (StatusText (example_lib [])) ge)
       \<and> code \<in> {''request_error'', ''json_encode_error'', ''json_decode_error'',
                   ''graphql_encode_error'', ''graphql_decode_error'',
                   ''graphql_extensions_decode_error''}
       \<and> (code = ErrGraphQLEncode
            \<and> (mutationOperation = queryOperation \<and> constructQuery (example_lib []) [] () [] = Inl ge
               \<or> mutationOperation = mutationOperation \<and> constructMutation (example_lib []) [] () [] = Inl ge
               \<or> mutationOperation \<noteq> queryOperation \<and> mutationOperation \<noteq> mutationOperation
                 \<and> ge = errorString (''invalid operation type: '' @ itoa (uint mutationOperation)))
          \<or> (\<exists>q. code = ErrGraphQLEncode
                 \<and> (\<exists>n. json_Encode (example_lib []) \<lparr>Query = q, Variables = (), OperationName = n\<rparr>
                           = Inl ge)
               \<or> code = ErrRequestError
                 \<and> (\<exists>b ge'. NewRequestWithContext (example_lib []) ''POST'' (url example_client) b = Inl ge'
                       \<and> ge = wrapError ''problem constructing request: '' ge')
               \<or> code = ErrRequestError \<and> (\<exists>rq. Result (httpClient example_client rq) = Inl ge)
               \<or> (\<exists>rq resp. Result (httpClient example_client rq) = Inr resp
                    \<and> (code = ErrJsonDecode
                         \<and> (\<exists>ge'. gzip_NewReader (example_lib []) (Body resp) = Inl ge'
                               \<and> ge = wrapError ''problem trying to create gzip reader: '' ge')
                       \<or> (\<exists>raw. (raw = Body resp
                                  \<or> (\<exists>r. gzip_NewReader (example_lib []) (Body resp) = Inr (raw, r)))
                            \<and> (code = ErrRequestError \<and> StatusCode resp \<noteq> 200
                                 \<and> ge = networkError
                                     \<lparr>body = content raw, statusCode = StatusCode resp\<rparr>
                               \<or> code = ErrJsonDecode \<and> debug example_client \<and> read_err raw = Some ge))))
               \<or> code = ErrJsonDecode \<and> (\<exists>r. json_Decode (example_lib []) r = Inl ge))
          \<or> code = ErrGraphQLDecode
            \<and> (\<exists>d. d \<noteq> [] \<and> snd (UnmarshalGraphQL (example_lib []) d []) = Some ge)
          \<or> code = ErrGraphQLExtensionsDecode
            \<and> (\<exists>x y. x \<noteq> [] \<and> snd (json_Unmarshal (example_lib []) x y) = Some ge))))
   \<and> Extensions (newError example_StatusText ErrRequestError
                   (errorString ''connection refused''))
       = Some [(''code'', AString ''request_error'')]
   \<and> Message (newError example_StatusText ErrRequestError
                (errorString ''connection refused'')) = ''connection refused''
   \<and> Result (httpClient example_client
               \<lparr>req_Method = ''POST'', req_URL = ''https://api.trynova.ai/graphql'',
                req_Header = [], req_Body = example_mutation\<rparr>)
       = Inl (errorString ''connection refused'')"
proof (intro conjI)
  let ?e = "newError example_StatusText ErrRequestError (errorString ''connection refused'')"
  show run: "Client_do (example_lib []) example_client mutationOperation [] () []
               = Return ([], None, Some [?e])"
    by (simp add: Client_do_def buildQueryAndOptions_def request_def request_response_def
        request_fail_debug_def request_fail_def processResponse_def modified_request_def
        example_lib_def example_client_def down_transport_def mutationOperation_def
        queryOperation_def Let_def)
  have mem: "?e \<in> set [?e]" by simp
  show "(\<exists>r out. json_Decode (example_lib []) r = Inr out
        \<and> (?e \<in> set (out_Errors out)
           \<or> debug example_client \<and> (\<exists>rq rd resp rr rb.
                 withRequest_withResponse (hd (out_Errors out)) rq rd resp rr = Return (?e, rb))))
   \<or> (\<exists>code ge.
         ((\<exists>m. Extensions ?e = Some m \<and> map_of m ''code'' = Some (AString code))
          \<and> err ?e = Some ge \<and> Message ?e = error_Error (StatusText (example_lib [])) ge)
       \<and> code \<in> {''request_error'', ''json_encode_error'', ''json_decode_error'',
                   ''graphql_encode_error'', ''graphql_decode_error'',
                   ''graphql_extensions_decode_error''}
       \<and> (code = ErrGraphQLEncode
            \<and> (mutationOperation = queryOperation \<and> constructQuery (example_lib []) [] () [] = Inl ge
               \<or> mutationOperation = mutationOperation \<and> constructMutation (example_lib []) [] () [] = Inl ge
               \<or> mutationOperation \<noteq> queryOperation \<and> mutationOperation \<noteq> mutationOperation
                 \<and> ge = errorString (''invalid operation type: '' @ itoa (uint mutationOperation)))
          \<or> (\<exists>q. code = ErrGraphQLEncode
                 \<and> (\<exists>n. json_Encode (example_lib []) \<lparr>Query = q, Variables = (), OperationName = n\<rparr>
                           = Inl ge)
               \<or> code = ErrRequestError
                 \<and> (\<exists>b ge'. NewRequestWithContext (example_lib []) ''POST'' (url example_client) b = Inl ge'
                       \<and> ge = wrapError ''problem constructing request: '' ge')
               \<or> code = ErrRequestError \<and> (\<exists>rq. Result (httpClient example_client rq) = Inl ge)
               \<or> (\<exists>rq resp. Result (httpClient example_client rq) = Inr resp
                    \<and> (code = ErrJsonDecode
                         \<and> (\<exists>ge'. gzip_NewReader (example_lib []) (Body resp) = Inl ge'
                               \<and> ge = wrapError ''problem trying to create gzip reader: '' ge')
                       \<or> (\<exists>raw. (raw = Body resp
                                  \<or> (\<exists>r. gzip_NewReader (example_lib []) (Body resp) = Inr (raw, r)))
                            \<and> (code = ErrRequestError \<and> StatusCode resp \<noteq> 200
                                 \<and> ge = networkError
                                     \<lparr>body = content raw, statusCode = StatusCode resp\<rparr>
                               \<or> code = ErrJsonDecode \<and> debug example_client \<and> read_err raw = Some ge))))
               \<or> code = ErrJsonDecode \<and> (\<exists>r. json_Decode (example_lib []) r = Inl ge))
          \<or> code = ErrGraphQLDecode
            \<and> (\<exists>d. d \<noteq> [] \<and> snd (UnmarshalGraphQL (example_lib []) d []) = Some ge)
          \<or> code = ErrGraphQLExtensionsDecode
            \<and> (\<exists>x y. x \<noteq> [] \<and> snd (json_Unmarshal (example_lib []) x y) = Some ge)))"
    by (rule pipeline_errors_are_coded [OF run mem])
  show "Extensions ?e = Some [(''code'', AString ''request_error'')]"
    by (simp add: newError_def ErrRequestError_def)
  show "Message ?e = ''connection refused''"
    by (simp add: newError_def)
  show "Result (httpClient example_client
               \<lparr>req_Method = ''POST'', req_URL = ''https://api.trynova.ai/graphql'',
                req_Header = [], req_Body = example_mutation\<rparr>)
       = Inl (errorString ''connection refused'')"
    by (simp add: example_client_def down_transport_def)
qed

end
